theory Spec2Isabelle
  imports Complex_Main
begin

section \<open>Values and errors\<close>

text \<open>
  A JavaScript Number is modelled as an exact rational. The program only applies
  \<open>*\<close>, \<open>/\<close>, \<open>%\<close>, \<open>+\<close>, \<open>-\<close> and \<open>Math.floor\<close> to the command line's
  numbers. On every concrete input evaluated below, all the values that occur (such as
  \<open>1.25\<close>, \<open>2.5\<close> or \<open>0.25\<close>) are integers or binary fractions of small magnitude,
  which IEEE-754 doubles represent exactly, so that the exact arithmetic and the double
  arithmetic coincide there.
\<close>

type_synonym number = rat

text \<open>
  What a promise can be rejected with, or a callback can throw: a plain
  \<open>new Error (message)\<close>, a system error of \<open>fs\<close> named by its code, the
  \<open>RangeError\<close> of \<open>Array (n)\<close>, or whatever an external tool fails with.
\<close>

datatype error =
    Error string
  | SystemError string
  | RangeError string
  | ToolError string

section \<open>Promises\<close>

text \<open>
  A promise is modelled by what settling it does: from the world in which it is awaited
  it yields the rejection (\<open>Inl\<close>) or the fulfilment value (\<open>Inr\<close>) and the world
  left behind. Synchronous JavaScript code with effects is a function from the world to
  a value and the new world. A function that returns a promise is therefore synchronous
  code whose value is a promise: the effects of the call itself happen when it is
  called, those of the asynchronous work when the promise settles.
\<close>

type_synonym ('w, 'a) promise = "'w \<Rightarrow> (error + 'a) \<times> 'w"

type_synonym ('w, 'a) js = "'w \<Rightarrow> 'a \<times> 'w"

definition resolve :: "'a \<Rightarrow> ('w, 'a) promise" where
  \<comment> \<open>\<open>Promise.resolve (x)\<close>\<close>
  "resolve x = (\<lambda>w. (Inr x, w))"

definition reject :: "error \<Rightarrow> ('w, 'a) promise" where
  \<comment> \<open>\<open>Promise.reject (e)\<close>\<close>
  "reject e = (\<lambda>w. (Inl e, w))"

definition returns :: "'a \<Rightarrow> ('w, ('w, 'a) promise) js" where
  \<comment> \<open>a callback body \<open>return v\<close> with a plain value: \<open>then\<close> fulfils with it\<close>
  "returns v = (\<lambda>w. (resolve v, w))"

definition throws :: "error \<Rightarrow> ('w, ('w, 'a) promise) js" where
  \<comment> \<open>a callback body \<open>throw e\<close>: \<open>then\<close> rejects with it\<close>
  "throws e = (\<lambda>w. (reject e, w))"

definition returns_promise :: "('w, 'a) promise \<Rightarrow> ('w, ('w, 'a) promise) js" where
  \<comment> \<open>a callback body \<open>return p\<close> with a promise made by a call without immediate effect\<close>
  "returns_promise p = (\<lambda>w. (p, w))"

definition then_p ::
  "('w, 'a) promise \<Rightarrow> ('a \<Rightarrow> ('w, ('w, 'b) promise) js) \<Rightarrow> ('w, 'b) promise" where
  \<comment> \<open>\<open>p.then (cb)\<close>: a rejection of \<open>p\<close> skips \<open>cb\<close>; otherwise \<open>cb\<close> is called with the
      value, in the world \<open>p\<close> left, and the result follows the promise \<open>cb\<close> returns\<close>
  "then_p p cb =
     (\<lambda>w. case p w of
            (Inl e, w1) \<Rightarrow> (Inl e, w1)
          | (Inr x, w1) \<Rightarrow> (case cb x w1 of (q, w2) \<Rightarrow> q w2))"

definition catch_p ::
  "('w, 'a) promise \<Rightarrow> (error \<Rightarrow> ('w, ('w, 'a) promise) js) \<Rightarrow> ('w, 'a) promise" where
  \<comment> \<open>\<open>p.catch (cb)\<close>: a fulfilment of \<open>p\<close> skips \<open>cb\<close>\<close>
  "catch_p p cb =
     (\<lambda>w. case p w of
            (Inl e, w1) \<Rightarrow> (case cb e w1 of (q, w2) \<Rightarrow> q w2)
          | (Inr x, w1) \<Rightarrow> (Inr x, w1))"

section \<open>The serial task runner\<close>

text \<open>
  \<^verbatim>\<open>
  function serialize_tasks (tasks) {
      return tasks.reduce ((promise_chain, item) => {
          return promise_chain.then (chain_results =>
              item ().then (result => [...chain_results, result]));
      }, Promise.resolve ([]));
  }
  \<close>
  A task is a zero-argument function returning a promise. \<open>reduce\<close> with an initial
  value is a left fold. \<open>item ()\<close> is called inside the \<open>then\<close> callback only.
\<close>

type_synonym ('w, 'a) task = "('w, ('w, 'a) promise) js"

definition serialize_tasks :: "('w, 'a) task list \<Rightarrow> ('w, 'a list) promise" where
  "serialize_tasks tasks =
     foldl (\<lambda>promise_chain item.
              then_p promise_chain (\<lambda>chain_results w.
                case item w of
                  (p, w1) \<Rightarrow> (then_p p (\<lambda>result. returns (chain_results @ [result])), w1)))
           (resolve []) tasks"

text \<open>
  To observe when tasks start and finish, a task over a world \<open>'w\<close> is run in a world
  that carries a log beside it: calling task \<open>i\<close> records \<open>Invoked i\<close>, and the
  settling of the promise it returned records \<open>Settled i\<close> with the outcome.
\<close>

datatype 'a task_event = Invoked nat | Settled nat "error + 'a"

definition traced :: "nat \<Rightarrow> ('w, 'a) task \<Rightarrow> ('w \<times> 'a task_event list, 'a) task" where
  "traced i item =
     (\<lambda>(w, log). case item w of
        (p, w1) \<Rightarrow>
          (\<lambda>(w2, log2). case p w2 of (r, w3) \<Rightarrow> (r, (w3, log2 @ [Settled i r])),
           (w1, log @ [Invoked i])))"

definition traced_tasks :: "('w, 'a) task list \<Rightarrow> ('w \<times> 'a task_event list, 'a) task list" where
  "traced_tasks tasks = map (\<lambda>(i, item). traced i item) (enumerate 0 tasks)"

definition serial_log :: "'a list \<Rightarrow> 'a task_event list" where
  \<comment> \<open>the log of a strictly serial execution that obtained the results \<open>rs\<close>\<close>
  "serial_log rs = concat (map (\<lambda>(i, r). [Invoked i, Settled i (Inr r)]) (enumerate 0 rs))"

text \<open>The tasks \<open>ok (v)\<close> and \<open>fail ()\<close> of the specification's examples.\<close>

definition ok :: "'a \<Rightarrow> ('w, 'a) task" where
  "ok v = returns_promise (resolve v)"

definition fail :: "error \<Rightarrow> ('w, 'a) task" where
  "fail e = returns_promise (reject e)"

section \<open>The parameter grid\<close>

definition Math_floor :: "number \<Rightarrow> number" where
  "Math_floor x = of_int \<lfloor>x\<rfloor>"

definition js_rem :: "number \<Rightarrow> number \<Rightarrow> number" where
  \<comment> \<open>\<open>a % b\<close>: the remainder of the division truncated towards zero\<close>
  "js_rem a b = a - b * of_int (let q = a / b in if 0 \<le> q then \<lfloor>q\<rfloor> else \<lceil>q\<rceil>)"

text \<open>
  \<^verbatim>\<open>
  Array (Math.floor ((lomax * extmax) / (incr * incr)))
      .fill (undefined)
      .map ((_, i) => {
          const num_external = (Math.floor (i / (lomax / incr)) + 1) * incr;
          const num_linkonce = (i % (lomax / incr) + 1) * incr;
          ...
  \<close>
  \<open>Array (n)\<close> throws a \<open>RangeError\<close> unless \<open>n\<close> is an integer from \<open>0\<close> to
  \<open>2^32 - 1\<close>. With \<open>incr = 0\<close> the quotient is an infinity or \<open>NaN\<close>, which \<open>Array\<close>
  refuses too. \<open>grid_points\<close> is the array of the pairs \<open>(num_external, num_linkonce)\<close>
  that the tasks close over, in index order.
\<close>

definition grid_point :: "number \<Rightarrow> number \<Rightarrow> nat \<Rightarrow> number \<times> number" where
  "grid_point lomax incr i =
     (let num_external = (Math_floor (of_nat i / (lomax / incr)) + 1) * incr;
          num_linkonce = (js_rem (of_nat i) (lomax / incr) + 1) * incr
      in (num_external, num_linkonce))"

definition grid_points :: "number \<Rightarrow> number \<Rightarrow> number \<Rightarrow> error + (number \<times> number) list" where
  "grid_points lomax extmax incr =
     (if incr = 0 then Inl (RangeError ''Invalid array length'')
      else let n = \<lfloor>(lomax * extmax) / (incr * incr)\<rfloor>
           in if n < 0 \<or> 2 ^ 32 \<le> n then Inl (RangeError ''Invalid array length'')
              else Inr (map (grid_point lomax incr) [0..<nat n]))"

section \<open>The world of the program\<close>

text \<open>
  The file system is a table from path names to the kind of what is there. Paths are the
  strings the program builds: the work directory is taken as given (no trailing
  separator, no \<open>.\<close> or \<open>..\<close> segments to normalise), so \<open>path.join\<close> puts a
  separator between its two arguments. Only the existence and the kind of a path are
  modelled; permissions and input/output errors are not.
\<close>

datatype entry = File | Directory

type_synonym filesys = "(string \<times> entry) list"

record sys_state =
  files :: filesys
  now :: number \<comment> \<open>what \<open>Date.now ()\<close> returns\<close>

text \<open>
  Modelled from the spec: the module \<open>./run\<close>, whose \<open>runner (bin_dir, work_dir,
  repo_name, verbose)\<close> makes the object \<open>r\<close> of \<open>single_run\<close>, is not among the
  sources. The specification describes its four operations as invocations of opaque
  external tools, as subprocesses that succeed or fail and whose side effects are writes
  to the file system. So the runner is a parameter of the model: each operation is an
  arbitrary function that yields success or an error and may change the file system and
  let time pass. Each call of an operation by \<open>index.js\<close> is recorded in the trace of
  the world, as are the program's own writes.
\<close>

type_synonym tool = "sys_state \<Rightarrow> (error + unit) \<times> sys_state"

record runner =
  rld_gen :: "number \<Rightarrow> number \<Rightarrow> number \<Rightarrow> tool"
  repo2obj :: "string \<Rightarrow> string \<Rightarrow> tool"
  rld :: "string list \<Rightarrow> string \<Rightarrow> tool"
  lld :: "string list \<Rightarrow> string \<Rightarrow> tool"

record host =
  run_runner :: "string \<Rightarrow> string \<Rightarrow> string \<Rightarrow> bool \<Rightarrow> runner" \<comment> \<open>\<open>run.runner\<close>\<close>
  os_cpus_length :: nat \<comment> \<open>\<open>os.cpus ().length\<close>\<close>

datatype call =
    RldGen number number number
  | Repo2Obj string string
  | Rld "string list" string
  | Lld "string list" string

datatype event =
    Spawned call
  | WriteFile string string \<comment> \<open>\<open>fs.writeFile (path, text)\<close>\<close>
  | StdoutWrite string \<comment> \<open>\<open>process.stdout.write (text)\<close>\<close>
  | ConsoleTrace error
  | ConsoleError error

record world =
  sys :: sys_state
  trace :: "event list"
  exitCode :: int \<comment> \<open>\<open>process.exitCode\<close>, \<open>0\<close> while it is not set\<close>

definition spawn :: "call \<Rightarrow> tool \<Rightarrow> (world, unit) task" where
  \<comment> \<open>a call of an operation of the runner: recorded at the call, its outcome and its
      effect on the system are those of the tool, when the promise settles\<close>
  "spawn c t =
     (\<lambda>w. (\<lambda>w1. case t (sys w1) of (r, s) \<Rightarrow> (r, w1\<lparr>sys := s\<rparr>),
           w\<lparr>trace := trace w @ [Spawned c]\<rparr>))"

definition sync :: "('w, error + 'a) js \<Rightarrow> ('w, ('w, 'a) promise) js" where
  \<comment> \<open>a callback whose body is synchronous code that returns a value or throws\<close>
  "sync body =
     (\<lambda>w. case body w of (Inl e, w1) \<Rightarrow> (reject e, w1) | (Inr v, w1) \<Rightarrow> (resolve v, w1))"

fun forEach :: "('a \<Rightarrow> ('w, error + unit) js) \<Rightarrow> 'a list \<Rightarrow> ('w, error + unit) js" where
  "forEach f [] w = (Inr (), w)"
| "forEach f (x # xs) w =
     (case f x w of (Inl e, w1) \<Rightarrow> (Inl e, w1) | (Inr u, w1) \<Rightarrow> forEach f xs w1)"

subsection \<open>The file system operations the program uses\<close>

definition path_join :: "string \<Rightarrow> string \<Rightarrow> string" where
  "path_join dir name = dir @ ''/'' @ name"

text \<open>
  \<open>glob\<close> with the patterns of this program: \<open>*\<close> stands for any run of characters
  other than the separator, and not for a leading dot of a path segment; every other
  character stands for itself. The flag says whether a path segment starts here.
  The promise is fulfilled with the existing paths that match.
\<close>

fun glob_match :: "bool \<Rightarrow> string \<Rightarrow> string \<Rightarrow> bool" where
  "glob_match b [] s = (s = [])"
| "glob_match b (p # ps) [] = (p = CHR ''*'' \<and> glob_match b ps [])"
| "glob_match b (p # ps) (c # cs) =
     (if p = CHR ''*''
      then (if b \<and> c = CHR ''.'' then False
            else glob_match b ps (c # cs) \<or> (c \<noteq> CHR ''/'' \<and> glob_match False (p # ps) cs))
      else p = c \<and> glob_match (c = CHR ''/'') ps cs)"

definition matching :: "string \<Rightarrow> filesys \<Rightarrow> string list" where
  "matching pattern fs = filter (glob_match True pattern) (map fst fs)"

definition glob :: "string \<Rightarrow> (world, string list) promise" where
  "glob pattern = (\<lambda>w. (Inr (matching pattern (files (sys w))), w))"

definition remove_path :: "string \<Rightarrow> filesys \<Rightarrow> filesys" where
  "remove_path path fs = filter (\<lambda>(q, k). q \<noteq> path) fs"

definition fs_unlinkSync :: "string \<Rightarrow> (world, error + unit) js" where
  \<comment> \<open>\<open>fs.unlinkSync (path)\<close> throws where nothing or a directory is\<close>
  "fs_unlinkSync path =
     (\<lambda>w. case map_of (files (sys w)) path of
            None \<Rightarrow> (Inl (SystemError ''ENOENT''), w)
          | Some Directory \<Rightarrow> (Inl (SystemError ''EISDIR''), w)
          | Some File \<Rightarrow>
              (Inr (), w\<lparr>sys := (sys w)\<lparr>files := remove_path path (files (sys w))\<rparr>\<rparr>))"

definition fs_stat :: "string \<Rightarrow> (world, entry) promise" where
  \<comment> \<open>\<open>promisify (fs.stat) (path)\<close>\<close>
  "fs_stat path =
     (\<lambda>w. case map_of (files (sys w)) path of
            None \<Rightarrow> (Inl (SystemError ''ENOENT''), w)
          | Some stats \<Rightarrow> (Inr stats, w))"

definition isDirectory :: "entry \<Rightarrow> bool" where
  "isDirectory stats = (stats = Directory)"

definition children :: "filesys \<Rightarrow> string \<Rightarrow> string list" where
  \<comment> \<open>the names \<open>n\<close> for which \<open>path_join dir n\<close> exists\<close>
  "children fs dir =
     (let k = length dir + 1
      in map (drop k)
           (filter (\<lambda>path. take k path = dir @ ''/'' \<and> k < length path \<and>
                            CHR ''/'' \<notin> set (drop k path))
                   (map fst fs)))"

definition fs_readdir :: "string \<Rightarrow> (world, string list) promise" where
  \<comment> \<open>\<open>promisify (fs.readdir) (path)\<close>\<close>
  "fs_readdir path =
     (\<lambda>w. case map_of (files (sys w)) path of
            None \<Rightarrow> (Inl (SystemError ''ENOENT''), w)
          | Some File \<Rightarrow> (Inl (SystemError ''ENOTDIR''), w)
          | Some Directory \<Rightarrow> (Inr (children (files (sys w)) path), w))"

definition parent_dir :: "string \<Rightarrow> string" where
  \<comment> \<open>the path up to its last separator: empty for a name in the current directory and
      for a name in the root directory\<close>
  "parent_dir path = rev (drop 1 (dropWhile (\<lambda>c. c \<noteq> CHR ''/'') (rev path)))"

definition write_error :: "filesys \<Rightarrow> string \<Rightarrow> error option" where
  \<comment> \<open>why a file cannot be opened for writing at \<open>path\<close>: its directory is missing or is
      no directory, or \<open>path\<close> is a directory. The current directory and the root
      directory, which the table does not list, are taken to exist.\<close>
  "write_error fs path =
     (case (if parent_dir path = [] then Some Directory else map_of fs (parent_dir path)) of
        None \<Rightarrow> Some (SystemError ''ENOENT'')
      | Some File \<Rightarrow> Some (SystemError ''ENOTDIR'')
      | Some Directory \<Rightarrow>
          (case map_of fs path of
             Some Directory \<Rightarrow> Some (SystemError ''EISDIR'')
           | _ \<Rightarrow> None))"

definition fs_writeFile :: "string \<Rightarrow> string \<Rightarrow> (world, unit) task" where
  \<comment> \<open>\<open>promisify (fs.writeFile) (path, text)\<close>: the call is recorded in the trace; the
      promise is rejected where the file cannot be opened for writing, and otherwise the
      file is there when it is fulfilled\<close>
  "fs_writeFile path text =
     (\<lambda>w. (\<lambda>w1. case write_error (files (sys w1)) path of
                  Some e \<Rightarrow> (Inl e, w1)
                | None \<Rightarrow> (Inr (), w1\<lparr>sys := (sys w1)\<lparr>files :=
                            (path, File) # remove_path path (files (sys w1))\<rparr>\<rparr>),
           w\<lparr>trace := trace w @ [WriteFile path text]\<rparr>))"

definition process_stdout_write :: "string \<Rightarrow> (world, unit) task" where
  \<comment> \<open>\<open>process.stdout.write (text)\<close>, as the value a \<open>then\<close> callback returns (the
      boolean it returns is not used)\<close>
  "process_stdout_write text = (\<lambda>w. (resolve (), w\<lparr>trace := trace w @ [StdoutWrite text]\<rparr>))"

section \<open>The workspace cleaner\<close>

text \<open>
  \<^verbatim>\<open>
  function all_tickets_pattern (work_dir) {
      return path.join (work_dir, '*.o');
  }
  function clean_all (work_dir, repo_name) {
      const clean = (pattern) => {
          return glob (pattern)
              .then ((contents) => contents.forEach (file => fs.unlinkSync (file)));
      };
      return clean (all_tickets_pattern (work_dir))
          .then (() => clean (path.join (work_dir, '*.o.elf')))
          .then (() => clean (path.join (work_dir, repo_name)));
  }
  \<close>
\<close>

definition all_tickets_pattern :: "string \<Rightarrow> string" where
  "all_tickets_pattern work_dir = path_join work_dir ''*.o''"

definition clean :: "string \<Rightarrow> (world, unit) promise" where
  "clean pattern = then_p (glob pattern) (\<lambda>contents. sync (forEach fs_unlinkSync contents))"

definition clean_all :: "string \<Rightarrow> string \<Rightarrow> (world, unit) promise" where
  "clean_all work_dir db_name =
     then_p
       (then_p (clean (all_tickets_pattern work_dir))
          (\<lambda>_. returns_promise (clean (path_join work_dir ''*.o.elf''))))
       (\<lambda>_. returns_promise (clean (path_join work_dir db_name)))"

section \<open>A single run\<close>

definition is_repo_linker :: bool where
  "is_repo_linker = True"

definition verbose :: bool where
  "verbose = True"

definition repo_name :: string where
  "repo_name = ''repository.db''"

text \<open>
  \<open>async.mapLimit (coll, limit, iteratee)\<close> without a final callback returns a promise
  of the results in the order of \<open>coll\<close>, rejected with the first error. It runs up to
  \<open>limit\<close> iteratees at once; the model runs them one at a time, in order.
\<close>

fun async_mapLimit :: "'a list \<Rightarrow> nat \<Rightarrow> ('a \<Rightarrow> ('w, 'b) task) \<Rightarrow> ('w, 'b list) promise" where
  "async_mapLimit [] limit iteratee = resolve []"
| "async_mapLimit (x # xs) limit iteratee =
     then_p (\<lambda>w. case iteratee x w of (p, w1) \<Rightarrow> p w1)
       (\<lambda>y. returns_promise (then_p (async_mapLimit xs limit iteratee) (\<lambda>ys. returns (y # ys))))"

text \<open>
  \<^verbatim>\<open>
  function single_run (bin_dir, work_dir, num_modules, num_external_symbols, num_linkonce_symbols) {
      const r = run.runner (bin_dir, work_dir, repo_name, verbose);
      return clean_all (work_dir, repo_name)
          .then (() => r.rld_gen (num_modules, num_external_symbols, num_linkonce_symbols))
          .then (() => glob (all_tickets_pattern (work_dir)))
          .then (ticket_files => {
              if (is_repo_linker) {
                  return ticket_files;
              }
              return async.mapLimit (ticket_files, os.cpus ().length, function (ticket_file, callback) {
                  const elf_file = ticket_file + '.elf';
                  r.repo2obj (ticket_file, elf_file)
                      .then (() => callback (null, elf_file))
                      .catch (callback);
              });
          })
          .then (ld_inputs => {
              const start = Date.now ();
              return (is_repo_linker ? r.rld : r.lld) (ld_inputs, path.join (work_dir, 'a.out'))
                  .then (() => Date.now () - start)
                  .catch (err => { throw err; });
          });
  }
  \<close>
\<close>

definition single_run ::
  "host \<Rightarrow> string \<Rightarrow> string \<Rightarrow> number \<Rightarrow> number \<Rightarrow> number \<Rightarrow> (world, number) promise" where
  "single_run h bin_dir work_dir num_modules num_external_symbols num_linkonce_symbols =
     (let r = run_runner h bin_dir work_dir repo_name verbose
      in then_p
           (then_p
              (then_p
                 (then_p (clean_all work_dir repo_name)
                    (\<lambda>_. spawn (RldGen num_modules num_external_symbols num_linkonce_symbols)
                              (rld_gen r num_modules num_external_symbols num_linkonce_symbols)))
                 (\<lambda>_. returns_promise (glob (all_tickets_pattern work_dir))))
              (\<lambda>ticket_files.
                 if is_repo_linker then returns ticket_files
                 else returns_promise
                   (async_mapLimit ticket_files (os_cpus_length h)
                      (\<lambda>ticket_file w.
                         let elf_file = ticket_file @ ''.elf''
                         in case spawn (Repo2Obj ticket_file elf_file)
                                   (repo2obj r ticket_file elf_file) w of
                              (p, w1) \<Rightarrow> (then_p p (\<lambda>_. returns elf_file), w1)))))
           (\<lambda>ld_inputs w.
              let start = now (sys w)
              in case (if is_repo_linker
                       then spawn (Rld ld_inputs (path_join work_dir ''a.out''))
                              (rld r ld_inputs (path_join work_dir ''a.out''))
                       else spawn (Lld ld_inputs (path_join work_dir ''a.out''))
                              (lld r ld_inputs (path_join work_dir ''a.out''))) w of
                   (p, w1) \<Rightarrow>
                     (catch_p (then_p p (\<lambda>_ w2. (resolve (now (sys w2) - start), w2)))
                        (\<lambda>err. throws err),
                      w1)))"

section \<open>Checking the work directory\<close>

text \<open>
  \<^verbatim>\<open>
  function check_work_directory (work_dir, force) {
      return promisify (fs.stat) (work_dir)
          .then (stats => {
              if (!stats.isDirectory ()) {
                  throw new Error ('The specified work directory is not a directory');
              }
              return promisify (fs.readdir) (work_dir);
          })
          .then (files => {
              if (files.length > 0 && !force) {
                  throw new Error ('The specified work directory was not empty (--force to continue anyway)');
              }
              return true;
          });
  }
  \<close>
\<close>

definition check_work_directory :: "string \<Rightarrow> bool \<Rightarrow> (world, bool) promise" where
  "check_work_directory work_dir force_flag =
     then_p
       (then_p (fs_stat work_dir)
          (\<lambda>stats.
             if \<not> isDirectory stats
             then throws (Error ''The specified work directory is not a directory'')
             else returns_promise (fs_readdir work_dir)))
       (\<lambda>names.
          if length names > 0 \<and> \<not> force_flag
          then throws (Error
            ''The specified work directory was not empty (--force to continue anyway)'')
          else returns True)"

section \<open>The results as text\<close>

text \<open>
  \<open>String (n)\<close> of a Number: the decimal digits of an integer, with a minus sign below
  zero. Of any other value the integer part, a point and the digits of the exact
  fraction, of which at most twenty are computed (JavaScript prints the shortest digits
  that read back as the same double).
\<close>

fun digits :: "nat \<Rightarrow> string" where
  "digits n =
     (if n < 10 then [''0123456789'' ! n]
      else digits (n div 10) @ [''0123456789'' ! (n mod 10)])"

fun fraction_digits :: "nat \<Rightarrow> number \<Rightarrow> string" where
  "fraction_digits 0 f = []"
| "fraction_digits (Suc k) f =
     (if f = 0 then []
      else let d = \<lfloor>f * 10\<rfloor>
           in (''0123456789'' ! nat d) # fraction_digits k (f * 10 - of_int d))"

definition number_to_string :: "number \<Rightarrow> string" where
  "number_to_string x =
     (let a = \<bar>x\<bar>; n = \<lfloor>a\<rfloor>
      in (if x < 0 then ''-'' else []) @ digits (nat n) @
         (if a = of_int n then [] else ''.'' @ fraction_digits 20 (a - of_int n)))"

fun join :: "string \<Rightarrow> string list \<Rightarrow> string" where
  \<comment> \<open>\<open>Array.prototype.join\<close> on the elements' strings\<close>
  "join sep [] = []"
| "join sep [x] = x"
| "join sep (x # y # ys) = x @ sep @ join sep (y # ys)"

text \<open>
  \<^verbatim>\<open>
  results = results.reduce ((acc, inner) => acc + inner.join (' ') + '\n', '');
  ... ('external linkonce time\n' + results)
  \<close>
\<close>

definition results_text :: "number list list \<Rightarrow> string" where
  "results_text results =
     ''external linkonce time\<newline>'' @
     foldl (\<lambda>acc inner. acc @ join '' '' (map number_to_string inner) @ ''\<newline>'') [] results"

section \<open>The program\<close>

record argv =
  workDir :: string
  binDir :: string
  output_arg :: string \<comment> \<open>\<open>argv.output\<close>\<close>
  force :: bool
  debug :: bool
  increment :: number
  external :: number
  linkonce :: number
  modules :: number

text \<open>
  \<^verbatim>\<open>
  check_work_directory (argv.workDir, argv.force)
      .then (() => {
          const lomax = argv.linkonce;
          const extmax = argv.external;
          const incr = argv.increment;
          return serialize_tasks (Array (Math.floor ((lomax * extmax) / (incr * incr)))
              .fill (undefined)
              .map ((_, i) => {
                  ...
                  return () => single_run (argv.binDir, argv.workDir, argv.modules, num_external, num_linkonce)
                      .then (time => [num_external, num_linkonce, time]);
              }));
      })
      .then (results => {
          const write_output = text => promisify (fs.writeFile) (argv.output, text);
          const write_stdout = text => process.stdout.write (text);
          results = results.reduce ((acc, inner) => acc + inner.join (' ') + '\n', '');
          return (argv.output == '-' ? write_stdout : write_output) ('external linkonce time\n' + results);
      })
      .catch (err => {
          if (argv.debug) {
              console.trace (err.stack);
          } else {
              console.error (err);
          }
          process.exitCode = 1;
      });
  \<close>
\<close>

definition run_task :: "host \<Rightarrow> argv \<Rightarrow> number \<times> number \<Rightarrow> (world, number list) task" where
  \<comment> \<open>the task built for one index of the array\<close>
  "run_task h a = (\<lambda>(num_external, num_linkonce).
     returns_promise
       (then_p (single_run h (binDir a) (workDir a) (modules a) num_external num_linkonce)
          (\<lambda>time. returns [num_external, num_linkonce, time])))"

definition sweep :: "host \<Rightarrow> argv \<Rightarrow> (world, number list list) task" where
  \<comment> \<open>the first \<open>then\<close> callback of \<open>main\<close>\<close>
  "sweep h a =
     (let lomax = linkonce a; extmax = external a; incr = increment a
      in case grid_points lomax extmax incr of
           Inl e \<Rightarrow> throws e
         | Inr points \<Rightarrow> returns_promise (serialize_tasks (map (run_task h a) points)))"

definition write_results :: "argv \<Rightarrow> number list list \<Rightarrow> (world, unit) task" where
  \<comment> \<open>the second \<open>then\<close> callback of \<open>main\<close>\<close>
  "write_results a results =
     (if output_arg a = ''-'' then process_stdout_write (results_text results)
      else fs_writeFile (output_arg a) (results_text results))"

definition report :: "argv \<Rightarrow> error \<Rightarrow> (world, unit) task" where
  \<comment> \<open>the \<open>catch\<close> callback of \<open>main\<close>\<close>
  "report a err =
     (\<lambda>w. (resolve (),
            w\<lparr>trace := trace w @ [if debug a then ConsoleTrace err else ConsoleError err],
              exitCode := 1\<rparr>))"

definition main_chain :: "host \<Rightarrow> argv \<Rightarrow> (world, unit) promise" where
  "main_chain h a =
     catch_p
       (then_p
          (then_p (check_work_directory (workDir a) (force a)) (\<lambda>_. sweep h a))
          (write_results a))
       (report a)"

definition main :: "host \<Rightarrow> argv \<Rightarrow> world \<Rightarrow> world" where
  \<comment> \<open>the world when the promise chain of \<open>main\<close> has settled\<close>
  "main h a w = snd (main_chain h a w)"

section \<open>Notions used to state the properties\<close>

definition with_files :: "world \<Rightarrow> filesys \<Rightarrow> world" where
  \<comment> \<open>the world with another file system and nothing else changed\<close>
  "with_files w fs = w\<lparr>sys := (sys w)\<lparr>files := fs\<rparr>\<rparr>"

definition artifacts :: "string \<Rightarrow> string \<Rightarrow> filesys \<Rightarrow> string list" where
  \<comment> \<open>the existing paths that one of the three patterns of \<open>clean_all\<close> matches\<close>
  "artifacts work_dir db_name fs =
     filter (\<lambda>path. glob_match True (all_tickets_pattern work_dir) path \<or>
                    glob_match True (path_join work_dir ''*.o.elf'') path \<or>
                    glob_match True (path_join work_dir db_name) path)
            (map fst fs)"

definition outputs :: "event list \<Rightarrow> event list" where
  \<comment> \<open>the writes of results, to the output file or to standard output\<close>
  "outputs evs = filter (\<lambda>ev. case ev of WriteFile path text \<Rightarrow> True
                               | StdoutWrite text \<Rightarrow> True | _ \<Rightarrow> False) evs"

subsection \<open>Example configurations\<close>

text \<open>
  A tool runner that always succeeds: the generator leaves two ticket files in the work
  directory, the repo linker writes its output and takes 150 milliseconds. A second one
  whose repo linker fails.
\<close>

definition example_runner :: runner where
  "example_runner =
     \<lparr>rld_gen = (\<lambda>m e l s. (Inr (), s\<lparr>files := (''/w/t0.o'', File) # (''/w/t1.o'', File) # files s,
                                         now := now s + 20\<rparr>)),
      repo2obj = (\<lambda>ticket elf s. (Inr (), s\<lparr>files := (elf, File) # files s\<rparr>)),
      rld = (\<lambda>inputs out s. (Inr (), s\<lparr>files := (out, File) # files s, now := now s + 150\<rparr>)),
      lld = (\<lambda>inputs out s. (Inr (), s\<lparr>files := (out, File) # files s, now := now s + 900\<rparr>))\<rparr>"

definition example_host :: host where
  "example_host = \<lparr>run_runner = (\<lambda>bin_dir work_dir db verb. example_runner), os_cpus_length = 4\<rparr>"

definition failing_host :: host where
  "failing_host =
     \<lparr>run_runner = (\<lambda>bin_dir work_dir db verb.
        example_runner\<lparr>rld := (\<lambda>inputs out s. (Inl (ToolError ''rld''), s\<lparr>now := now s + 3\<rparr>))\<rparr>),
      os_cpus_length = 4\<rparr>"

definition example_argv :: argv where
  "example_argv =
     \<lparr>workDir = ''/w'', binDir = ''/usr/bin'', output_arg = ''-'', force = False, debug = False,
      increment = 2000, external = 2000, linkonce = 2000, modules = 2\<rparr>"

definition example_world :: world where
  "example_world = \<lparr>sys = \<lparr>files = [(''/w'', Directory)], now = 1000\<rparr>, trace = [], exitCode = 0\<rparr>"

definition stale_world :: world where
  "stale_world =
     \<lparr>sys = \<lparr>files = [(''/w'', Directory), (''/w/t0.o'', File), (''/w/t0.o.elf'', File),
                      (''/w/repository.db'', File), (''/w/notes.txt'', File)],
             now = 1000\<rparr>,
      trace = [], exitCode = 0\<rparr>"

section \<open>Theorems\<close>

lemma then_p_apply:
  "then_p p cb w =
     (case p w of (Inl e, w1) \<Rightarrow> (Inl e, w1) | (Inr x, w1) \<Rightarrow> (case cb x w1 of (q, w2) \<Rightarrow> q w2))"
  by (simp add: then_p_def)

lemma serialize_tasks_Nil: "serialize_tasks [] w = (Inr [], w)"
  by (simp add: serialize_tasks_def resolve_def)

lemma serialize_tasks_snoc:
  "serialize_tasks (tasks @ [item]) w =
     (case serialize_tasks tasks w of
        (Inl e, w1) \<Rightarrow> (Inl e, w1)
      | (Inr chain_results, w1) \<Rightarrow>
          (case item w1 of
             (p, w2) \<Rightarrow>
               (case p w2 of
                  (Inl e, w3) \<Rightarrow> (Inl e, w3)
                | (Inr result, w3) \<Rightarrow> (Inr (chain_results @ [result]), w3))))"
  by (simp add: serialize_tasks_def then_p_apply returns_def resolve_def
      split: prod.splits sum.splits)

subsection \<open>The serial task runner\<close>

lemma traced_tasks_snoc:
  "traced_tasks (tasks @ [item]) = traced_tasks tasks @ [traced (length tasks) item]"
  by (simp add: traced_tasks_def enumerate_append_eq)

lemma serial_log_snoc:
  "serial_log (rs @ [r]) = serial_log rs @ [Invoked (length rs), Settled (length rs) (Inr r)]"
  by (simp add: serial_log_def enumerate_append_eq)

lemma serialize_traced:
  "serialize_tasks (traced_tasks tasks) (w, []) = (res, (w', evs)) \<Longrightarrow>
     serialize_tasks tasks w = (res, w') \<and>
     (case res of
        Inr rs \<Rightarrow> length rs = length tasks \<and> evs = serial_log rs
      | Inl e \<Rightarrow> (\<exists>rs. length rs < length tasks \<and>
                 evs = serial_log rs @ [Invoked (length rs), Settled (length rs) (Inl e)]))"
proof (induction tasks arbitrary: res w' evs rule: rev_induct)
  case Nil
  then show ?case
    by (auto simp: traced_tasks_def serialize_tasks_Nil serial_log_def)
next
  case (snoc item tasks)
  obtain res0 w0 evs0 where r0: "serialize_tasks (traced_tasks tasks) (w, []) = (res0, (w0, evs0))"
    by (metis prod.exhaust)
  note ih = snoc.IH [OF r0]
  show ?case
  proof (cases res0)
    case (Inl e)
    with ih obtain rs where rs: "length rs < length tasks"
      "evs0 = serial_log rs @ [Invoked (length rs), Settled (length rs) (Inl e)]"
      and un: "serialize_tasks tasks w = (Inl e, w0)" by auto
    from snoc.prems r0 Inl have "res = Inl e" "w' = w0" "evs = evs0"
      by (simp_all add: traced_tasks_snoc serialize_tasks_snoc)
    with rs un show ?thesis
      by (auto simp: serialize_tasks_snoc intro!: exI [of _ rs])
  next
    case (Inr rs)
    obtain p w2 where it: "item w0 = (p, w2)" by (metis prod.exhaust)
    obtain r w3 where pr: "p w2 = (r, w3)" by (metis prod.exhaust)
    from Inr ih have len: "length rs = length tasks" and lg: "evs0 = serial_log rs"
      and un: "serialize_tasks tasks w = (Inr rs, w0)" by auto
    show ?thesis
    proof (cases r)
      case (Inl e)
      with snoc.prems r0 Inr it pr have "res = Inl e" "w' = w3"
        "evs = evs0 @ [Invoked (length tasks), Settled (length tasks) (Inl e)]"
        by (simp_all add: traced_tasks_snoc serialize_tasks_snoc traced_def)
      with Inl it pr len lg un show ?thesis
        by (auto simp: serialize_tasks_snoc intro!: exI [of _ rs])
    next
      case r: (Inr v)
      with snoc.prems r0 Inr it pr len lg un show ?thesis
        by (auto simp: traced_tasks_snoc serialize_tasks_snoc traced_def serial_log_snoc)
    qed
  qed
qed


lemma serialize_tasks_rejected:
  "serialize_tasks tasks w = (Inl e, w1) \<Longrightarrow> serialize_tasks (tasks @ rest) w = (Inl e, w1)"
proof (induction rest rule: rev_induct)
  case Nil
  then show ?case by simp
next
  case (snoc item rest)
  then show ?case
    by (simp add: serialize_tasks_snoc [of "tasks @ rest" item, simplified])
qed

lemma ok_apply: "ok v w = (resolve v, w)"
  by (simp add: ok_def returns_promise_def)

lemma resolve_apply: "resolve v w = (Inr v, w)"
  by (simp add: resolve_def)

lemma serialize_traced_ok:
  "serialize_tasks (traced_tasks (map ok vs)) (w, []) = (Inr vs, (w, serial_log vs))"
proof (induction vs rule: rev_induct)
  case Nil
  then show ?case by (simp add: traced_tasks_def serialize_tasks_Nil serial_log_def)
next
  case (snoc v vs)
  have "serialize_tasks (traced_tasks (map ok (vs @ [v]))) (w, []) =
      serialize_tasks (traced_tasks (map ok vs) @ [traced (length vs) (ok v)]) (w, [])"
    by (simp add: traced_tasks_snoc)
  also have "\<dots> = (Inr (vs @ [v]), (w, serial_log (vs @ [v])))"
    unfolding serialize_tasks_snoc snoc.IH
    by (simp add: serial_log_snoc traced_def ok_apply resolve_apply)
  finally show ?case .
qed

text \<open>
  C1. The serial task runner runs its tasks strictly one after another and resolves to
  their results in the order of the tasks. Whenever the run of the tasks, observed through
  the log, is fulfilled with \<open>rs\<close>, there is one result per task and the log is
  \<open>Invoked 0, Settled 0 r\<^sub>0, Invoked 1, Settled 1 r\<^sub>1, \<dots>\<close>: task \<open>i + 1\<close> is called
  only after the promise of task \<open>i\<close> has settled, and \<open>rs\<close> lists the values the tasks'
  promises were fulfilled with, in task order. The run without the log has the same
  outcome. For tasks \<open>ok (v\<^sub>0), ok (v\<^sub>1), \<dots>\<close> the run is fulfilled, with \<open>v\<^sub>0, v\<^sub>1, \<dots>\<close>.
\<close>

theorem serialize_tasks_serial:
  "(serialize_tasks (traced_tasks tasks) (w, []) = (Inr rs, (w', evs)) \<longrightarrow>
      length rs = length tasks \<and> evs = serial_log rs \<and>
      serialize_tasks tasks w = (Inr rs, w')) \<and>
   serialize_tasks (traced_tasks (map ok vs)) (v, []) = (Inr vs, (v, serial_log vs))"
proof (intro conjI impI)
  assume a: "serialize_tasks (traced_tasks tasks) (w, []) = (Inr rs, (w', evs))"
  from serialize_traced [OF a]
  show "length rs = length tasks" and "evs = serial_log rs"
    and "serialize_tasks tasks w = (Inr rs, w')" by simp_all
next
  show "serialize_tasks (traced_tasks (map ok vs)) (v, []) = (Inr vs, (v, serial_log vs))"
    by (rule serialize_traced_ok)
qed

theorem serialize_tasks_serial_witness:
  "serialize_tasks (traced_tasks [ok 1, ok 2, ok 3]) ((), []) =
     (Inr [1, 2, 3 :: int], ((), [Invoked 0, Settled 0 (Inr 1), Invoked 1, Settled 1 (Inr 2),
                                  Invoked 2, Settled 2 (Inr 3)])) \<and>
   serialize_tasks [ok 1, ok 2, ok 3] () = (Inr [1, 2, 3 :: int], ())"
proof -
  have run: "serialize_tasks (traced_tasks [ok 1, ok 2, ok 3]) ((), []) =
     (Inr [1, 2, 3 :: int], ((), serial_log [1, 2, 3 :: int]))"
    by code_simp
  have lg: "serial_log [1, 2, 3 :: int] =
     [Invoked 0, Settled 0 (Inr 1), Invoked 1, Settled 1 (Inr 2), Invoked 2, Settled 2 (Inr 3)]"
    by code_simp
  from serialize_tasks_serial [of "[ok 1, ok 2, ok 3]" "()" "[1, 2, 3]" "()"
      "serial_log [1, 2, 3 :: int]" "[]" "()"] run
  have "serialize_tasks [ok 1, ok 2, ok 3] () = (Inr [1, 2, 3 :: int], ())"
    by blast
  with run lg show ?thesis by simp
qed

text \<open>
  C2. The serial task runner stops at the first failing task and propagates its failure.
  If the tasks \<open>before\<close> are fulfilled with \<open>rs\<close> and the next task \<open>item\<close>, called in
  the world they leave, returns a promise that is rejected with \<open>e\<close>, then for every list
  \<open>rest\<close> of further tasks the run is rejected with \<open>e\<close> (no array of partial results),
  in the world the failing task left, and the log ends with the settling of the failing
  task: no task of \<open>rest\<close> is ever called.
\<close>

theorem serialize_tasks_fail_stop:
  assumes "serialize_tasks (traced_tasks before) (w, []) = (Inr rs, (w1, evs))"
    and "item w1 = (p, w2)"
    and "p w2 = (Inl e, w3)"
  shows "serialize_tasks (before @ item # rest) w = (Inl e, w3) \<and>
         serialize_tasks (traced_tasks (before @ item # rest)) (w, []) =
           (Inl e, (w3, serial_log rs @ [Invoked (length before), Settled (length before) (Inl e)])) \<and>
         (\<forall>j. Invoked j \<in> set (serial_log rs @
                  [Invoked (length before), Settled (length before) (Inl e) :: 'b task_event])
               \<longrightarrow> j \<le> length before)"
proof -
  note b = serialize_traced [OF assms(1)]
  then have un: "serialize_tasks before w = (Inr rs, w1)" and len: "length rs = length before"
    and ev: "evs = serial_log rs" by simp_all
  have "serialize_tasks (before @ [item]) w = (Inl e, w3)"
    using un assms(2,3) by (simp add: serialize_tasks_snoc)
  then have 1: "serialize_tasks (before @ item # rest) w = (Inl e, w3)"
    using serialize_tasks_rejected [of "before @ [item]" w e w3 rest] by simp
  have "serialize_tasks (traced_tasks (before @ [item])) (w, []) =
          (Inl e, (w3, serial_log rs @ [Invoked (length before), Settled (length before) (Inl e)]))"
    using assms ev by (simp add: traced_tasks_snoc serialize_tasks_snoc traced_def)
  then have 2: "serialize_tasks (traced_tasks (before @ item # rest)) (w, []) =
          (Inl e, (w3, serial_log rs @ [Invoked (length before), Settled (length before) (Inl e)]))"
    using serialize_tasks_rejected [of "traced_tasks (before @ [item])" "(w, [])" e _
        "map (\<lambda>(i, item). traced i item) (enumerate (Suc (length before)) rest)"]
    by (simp add: traced_tasks_def enumerate_append_eq)
  have 3: "j \<le> length before"
    if "Invoked j \<in> set (serial_log rs @
          [Invoked (length before), Settled (length before) (Inl e) :: 'b task_event])" for j
    using that len by (auto simp: serial_log_def in_set_enumerate_eq)
  from 1 2 3 show ?thesis by blast
qed

theorem serialize_tasks_fail_stop_witness:
  "serialize_tasks (traced_tasks [ok 1, ok 2]) ((), []) =
     (Inr [1, 2 :: int], ((), [Invoked 0, Settled 0 (Inr 1), Invoked 1, Settled 1 (Inr 2)])) \<and>
   (fail (Error ''failed'') :: (unit, int) task) () = (reject (Error ''failed''), ()) \<and>
   (reject (Error ''failed'') :: (unit, int) promise) () = (Inl (Error ''failed''), ()) \<and>
   serialize_tasks [ok 1, ok 2, fail (Error ''failed''), ok (3 :: int)] () =
     (Inl (Error ''failed''), ()) \<and>
   serialize_tasks (traced_tasks [ok 1, ok 2, fail (Error ''failed''), ok (3 :: int)]) ((), []) =
     (Inl (Error ''failed''),
      ((), [Invoked 0, Settled 0 (Inr 1), Invoked 1, Settled 1 (Inr 2),
            Invoked 2, Settled 2 (Inl (Error ''failed''))]))"
proof -
  have run: "serialize_tasks (traced_tasks [ok 1, ok 2]) ((), []) =
     (Inr [1, 2 :: int], ((), [Invoked 0, Settled 0 (Inr 1), Invoked 1, Settled 1 (Inr 2)]))"
    by code_simp
  have inv: "(fail (Error ''failed'') :: (unit, int) task) () = (reject (Error ''failed''), ())"
    by (simp add: fail_def returns_promise_def)
  have rej: "(reject (Error ''failed'') :: (unit, int) promise) () = (Inl (Error ''failed''), ())"
    by (simp add: reject_def)
  have lg: "serial_log [1, 2 :: int] = [Invoked 0, Settled 0 (Inr 1), Invoked 1, Settled 1 (Inr 2)]"
    by code_simp
  from serialize_tasks_fail_stop [where before = "[ok 1, ok 2]" and item = "fail (Error ''failed'')"
      and p = "reject (Error ''failed'')" and rest = "[ok 3]", OF run inv rej] run inv rej lg
  show ?thesis by simp
qed

subsection \<open>The parameter grid on the specification's examples\<close>

text \<open>
  C4. For \<open>external_max = 4000\<close>, \<open>linkonce_max = 4000\<close> and \<open>increment = 2000\<close> the grid
  is exactly \<open>(2000,2000), (2000,4000), (4000,2000), (4000,4000)\<close>, in this order: the
  linkonce count varies fastest and the external count slowest.
\<close>

theorem grid_points_4000_4000_2000:
  "grid_points 4000 4000 2000 =
     Inr [(2000, 2000), (2000, 4000), (4000, 2000), (4000, 4000)]"
  by code_simp

text \<open>
  C3. The specification says that the grid is empty whenever one of the two maxima is
  smaller than the increment. The array length is the floor of the quotient of the
  product of the maxima by the square of the increment, so for \<open>external_max = 1000\<close>,
  \<open>linkonce_max = 5000\<close> and \<open>increment = 2000\<close> the length is \<open>\<lfloor>1.25\<rfloor> = 1\<close> and
  the grid holds one point, whose external count \<open>2000\<close> exceeds \<open>extmax\<close>.
\<close>

theorem grid_points_1000_5000_2000:
  "grid_points 5000 1000 2000 = Inr [(2000, 2000)]"
  by code_simp

text \<open>
  The same happens whenever a maximum is not a multiple of the increment: for
  \<open>external_max = 4000\<close>, \<open>linkonce_max = 5000\<close> and \<open>increment = 2000\<close> the rows have
  the length \<open>2.5\<close>, and the grid has a point beyond \<open>lomax\<close> and a point that is not
  a multiple of the increment.
\<close>

lemma grid_points_4000_5000_2000:
  "grid_points 5000 4000 2000 =
     Inr [(2000, 2000), (2000, 4000), (2000, 6000), (4000, 3000), (4000, 5000)]"
  by code_simp

subsection \<open>The results as text\<close>

lemma foldl_append_concat:
  "foldl (\<lambda>acc x. acc @ f x) a xs = a @ concat (map f xs)"
  by (induction xs arbitrary: a) simp_all

lemma number_to_string_2000: "number_to_string 2000 = ''2000''"
  by (simp add: number_to_string_def)

lemma number_to_string_4000: "number_to_string 4000 = ''4000''"
  by (simp add: number_to_string_def)

lemma number_to_string_150: "number_to_string 150 = ''150''"
  by (simp add: number_to_string_def)

lemma number_to_string_300: "number_to_string 300 = ''300''"
  by (simp add: number_to_string_def)

text \<open>
  C6. The results are rendered as the header line \<open>external linkonce time\<close> followed by
  one line per result, in the order of the results, each line being the three fields
  separated by single spaces; for the results \<open>(2000,2000,150), (2000,4000,300)\<close> the
  text is exactly the header and the lines \<open>2000 2000 150\<close> and \<open>2000 4000 300\<close>.
\<close>

theorem results_text_lines:
  "results_text (map (\<lambda>(e, l, t). [e, l, t]) rows) =
     ''external linkonce time\<newline>'' @
     concat (map (\<lambda>(e, l, t). number_to_string e @ '' '' @ number_to_string l @ '' '' @
                              number_to_string t @ ''\<newline>'') rows) \<and>
   results_text [[2000, 2000, 150], [2000, 4000, 300]] =
     ''external linkonce time\<newline>2000 2000 150\<newline>2000 4000 300\<newline>''"
proof
  show "results_text (map (\<lambda>(e, l, t). [e, l, t]) rows) =
     ''external linkonce time\<newline>'' @
     concat (map (\<lambda>(e, l, t). number_to_string e @ '' '' @ number_to_string l @ '' '' @
                              number_to_string t @ ''\<newline>'') rows)"
    unfolding results_text_def foldl_append_concat
    by (simp add: comp_def case_prod_unfold)
  show "results_text [[2000, 2000, 150], [2000, 4000, 300]] =
     ''external linkonce time\<newline>2000 2000 150\<newline>2000 4000 300\<newline>''"
    by (simp add: results_text_def number_to_string_2000 number_to_string_4000
        number_to_string_150 number_to_string_300)
qed

subsection \<open>The check of the work directory and the program\<close>

lemma check_work_directory_apply:
  "check_work_directory d f w =
     (case map_of (files (sys w)) d of
        None \<Rightarrow> (Inl (SystemError ''ENOENT''), w)
      | Some File \<Rightarrow> (Inl (Error ''The specified work directory is not a directory''), w)
      | Some Directory \<Rightarrow>
          (if children (files (sys w)) d \<noteq> [] \<and> \<not> f
           then (Inl (Error
             ''The specified work directory was not empty (--force to continue anyway)''), w)
           else (Inr True, w)))"
  by (simp add: check_work_directory_def then_p_apply fs_stat_def fs_readdir_def isDirectory_def
      throws_def reject_def returns_def resolve_def returns_promise_def
      split: option.splits entry.splits)

lemma main_apply:
  "main h a w =
     (case check_work_directory (workDir a) (force a) w of
        (Inl e, w1) \<Rightarrow> snd (report a e w1)
      | (Inr b, w1) \<Rightarrow>
          (case sweep h a w1 of
             (p, w2) \<Rightarrow>
               (case p w2 of
                  (Inl e, w3) \<Rightarrow> snd (report a e w3)
                | (Inr results, w3) \<Rightarrow>
                    (case write_results a results w3 of
                       (q, w4) \<Rightarrow>
                         (case q w4 of
                            (Inl e, w5) \<Rightarrow> snd (report a e w5)
                          | (Inr u, w5) \<Rightarrow> w5)))))"
  by (simp add: main_def main_chain_def catch_p_def then_p_apply report_def resolve_def
      split: prod.splits sum.splits)


lemma report_apply:
  "snd (report a e w) =
     w\<lparr>trace := trace w @ [if debug a then ConsoleTrace e else ConsoleError e], exitCode := 1\<rparr>"
  by (simp add: report_def)

text \<open>
  C7. The check of the work directory fails before any run starts: if the work directory
  does not exist, is not a directory, or is not empty while \<open>--force\<close> is not given,
  the check is rejected in an unchanged world, and all the program then does is report the
  error and set the exit code: no tool is called, no file is removed and nothing is
  written. If the directory exists and is empty, or \<open>--force\<close> is given, the check is
  fulfilled and leaves the world as it was.
\<close>

theorem check_work_directory_fails_first:
  "((map_of (files (sys w)) (workDir a) = None \<or>
     map_of (files (sys w)) (workDir a) = Some File \<or>
     (children (files (sys w)) (workDir a) \<noteq> [] \<and> \<not> force a)) \<longrightarrow>
    (\<exists>e. check_work_directory (workDir a) (force a) w = (Inl e, w) \<and>
         main h a w =
           w\<lparr>trace := trace w @ [if debug a then ConsoleTrace e else ConsoleError e],
             exitCode := 1\<rparr>)) \<and>
   (map_of (files (sys w)) (workDir a) = Some Directory \<and>
    (children (files (sys w)) (workDir a) = [] \<or> force a) \<longrightarrow>
    check_work_directory (workDir a) (force a) w = (Inr True, w))"
proof (intro conjI impI)
  assume bad: "map_of (files (sys w)) (workDir a) = None \<or>
     map_of (files (sys w)) (workDir a) = Some File \<or>
     (children (files (sys w)) (workDir a) \<noteq> [] \<and> \<not> force a)"
  then have "\<exists>e. check_work_directory (workDir a) (force a) w = (Inl e, w)"
    unfolding check_work_directory_apply by (auto split: option.split entry.split)
  then obtain e where e: "check_work_directory (workDir a) (force a) w = (Inl e, w)" ..
  then have "main h a w = snd (report a e w)"
    by (simp add: main_apply)
  with e show "\<exists>e. check_work_directory (workDir a) (force a) w = (Inl e, w) \<and>
         main h a w =
           w\<lparr>trace := trace w @ [if debug a then ConsoleTrace e else ConsoleError e],
             exitCode := 1\<rparr>"
    unfolding report_apply by blast
next
  assume "map_of (files (sys w)) (workDir a) = Some Directory \<and>
    (children (files (sys w)) (workDir a) = [] \<or> force a)"
  then show "check_work_directory (workDir a) (force a) w = (Inr True, w)"
    unfolding check_work_directory_apply by auto
qed

theorem check_work_directory_fails_first_witness:
  "map_of (files (sys (with_files example_world []))) (workDir example_argv) = None \<and>
   main example_host example_argv (with_files example_world []) =
     (with_files example_world [])\<lparr>trace := [ConsoleError (SystemError ''ENOENT'')],
                                   exitCode := 1\<rparr> \<and>
   children (files (sys stale_world)) (workDir example_argv) \<noteq> [] \<and> \<not> force example_argv \<and>
   (\<exists>e. main example_host example_argv stale_world =
          stale_world\<lparr>trace := [ConsoleError e], exitCode := 1\<rparr>) \<and>
   map_of (files (sys example_world)) (workDir example_argv) = Some Directory \<and>
   children (files (sys example_world)) (workDir example_argv) = [] \<and>
   check_work_directory (workDir example_argv) (force example_argv) example_world =
     (Inr True, example_world)"
proof -
  let ?missing = "with_files example_world []"
  have h1: "map_of (files (sys ?missing)) (workDir example_argv) = None"
    by (simp add: with_files_def)
  have c1: "check_work_directory (workDir example_argv) (force example_argv) ?missing =
      (Inl (SystemError ''ENOENT''), ?missing)"
    by (simp add: check_work_directory_apply h1)
  have h2: "children (files (sys stale_world)) (workDir example_argv) \<noteq> [] \<and>
      \<not> force example_argv"
    by code_simp
  have h3: "map_of (files (sys example_world)) (workDir example_argv) = Some Directory \<and>
      children (files (sys example_world)) (workDir example_argv) = []"
    by code_simp
  have d: "\<not> debug example_argv" "trace example_world = []" "trace stale_world = []"
    by (simp_all add: example_argv_def example_world_def stale_world_def)
  from check_work_directory_fails_first [of ?missing example_argv example_host] h1 c1 d
  have m1: "main example_host example_argv ?missing =
      ?missing\<lparr>trace := [ConsoleError (SystemError ''ENOENT'')], exitCode := 1\<rparr>"
    by (simp add: with_files_def)
  from check_work_directory_fails_first [of stale_world example_argv example_host] h2 d
  have m2: "\<exists>e. main example_host example_argv stale_world =
          stale_world\<lparr>trace := [ConsoleError e], exitCode := 1\<rparr>"
    by auto
  from check_work_directory_fails_first [of example_world example_argv] h3
  have m3: "check_work_directory (workDir example_argv) (force example_argv) example_world =
     (Inr True, example_world)"
    by simp
  from h1 m1 h2 m2 h3 m3 show ?thesis by blast
qed

subsection \<open>The workspace cleaner\<close>

lemma with_files_same [simp]: "with_files w (files (sys w)) = w"
  by (simp add: with_files_def)

lemma with_files_twice [simp]: "with_files (with_files w fs) fs' = with_files w fs'"
  by (simp add: with_files_def)

lemma files_with_files [simp]: "files (sys (with_files w fs)) = fs"
  by (simp add: with_files_def)

lemma map_of_keep:
  "P q \<Longrightarrow> map_of (filter (\<lambda>(p, k). P p) fs) q = map_of fs q"
  by (induction fs) auto

lemma fs_unlinkSync_apply:
  "fs_unlinkSync path w =
     (case map_of (files (sys w)) path of
        None \<Rightarrow> (Inl (SystemError ''ENOENT''), w)
      | Some Directory \<Rightarrow> (Inl (SystemError ''EISDIR''), w)
      | Some File \<Rightarrow> (Inr (), with_files w (filter (\<lambda>(q, k). q \<noteq> path) (files (sys w)))))"
  by (simp add: fs_unlinkSync_def with_files_def remove_path_def
      split: option.split entry.split)

lemma forEach_unlink_result:
  "forEach fs_unlinkSync ps w = (Inr u, w') \<Longrightarrow>
     w' = with_files w (filter (\<lambda>(q, k). q \<notin> set ps) (files (sys w)))"
proof (induction ps arbitrary: w)
  case Nil
  then show ?case by simp
next
  case (Cons p ps)
  from Cons.prems obtain w1 where u: "fs_unlinkSync p w = (Inr (), w1)"
    and r: "forEach fs_unlinkSync ps w1 = (Inr u, w')"
    by (auto split: prod.splits sum.splits)
  from u have w1: "w1 = with_files w (filter (\<lambda>(q, k). q \<noteq> p) (files (sys w)))"
    by (auto simp: fs_unlinkSync_apply split: option.splits entry.splits)
  have "filter (\<lambda>(q, k). q \<notin> set ps) (filter (\<lambda>(q, k). q \<noteq> p) (files (sys w))) =
        filter (\<lambda>(q, k). q \<notin> set (p # ps)) (files (sys w))"
    by (auto intro: filter_cong)
  with Cons.IH [OF r] w1 show ?case by simp
qed

lemma forEach_unlink_succeeds:
  "distinct ps \<Longrightarrow> \<forall>p\<in>set ps. map_of (files (sys w)) p = Some File \<Longrightarrow>
     fst (forEach fs_unlinkSync ps w) = Inr ()"
proof (induction ps arbitrary: w)
  case Nil
  then show ?case by simp
next
  case (Cons p ps)
  let ?w1 = "with_files w (filter (\<lambda>(q, k). q \<noteq> p) (files (sys w)))"
  from Cons.prems have u: "fs_unlinkSync p w = (Inr (), ?w1)"
    by (simp add: fs_unlinkSync_apply)
  have "\<forall>q\<in>set ps. map_of (files (sys ?w1)) q = Some File"
  proof
    fix q assume q: "q \<in> set ps"
    with Cons.prems(1) have "q \<noteq> p" by auto
    then have "map_of (filter (\<lambda>(r, k). r \<noteq> p) (files (sys w))) q = map_of (files (sys w)) q"
      by (rule map_of_keep [where P = "\<lambda>r. r \<noteq> p"])
    with q Cons.prems(2) show "map_of (files (sys ?w1)) q = Some File" by simp
  qed
  with Cons.IH [of ?w1] Cons.prems(1) have "fst (forEach fs_unlinkSync ps ?w1) = Inr ()"
    by simp
  with u show ?case by simp
qed

lemma clean_apply:
  "clean pattern w = forEach fs_unlinkSync (matching pattern (files (sys w))) w"
  by (simp add: clean_def then_p_apply glob_def sync_def reject_def resolve_def
      split: prod.splits sum.splits)

lemma clean_result:
  assumes "clean pattern w = (Inr u, w')"
  shows "w' = with_files w (filter (\<lambda>(q, k). \<not> glob_match True pattern q) (files (sys w)))"
proof -
  have "filter (\<lambda>(q, k). q \<notin> set (matching pattern (files (sys w)))) (files (sys w)) =
        filter (\<lambda>(q, k). \<not> glob_match True pattern q) (files (sys w))"
    by (rule filter_cong) (auto simp: matching_def image_iff)
  with forEach_unlink_result [OF assms [unfolded clean_apply]] show ?thesis by simp
qed

lemma clean_nothing:
  "matching pattern (files (sys w)) = [] \<Longrightarrow> clean pattern w = (Inr (), w)"
  by (simp add: clean_apply)

lemma clean_succeeds:
  assumes "distinct (map fst (files (sys w)))"
    and "\<forall>p\<in>set (matching pattern (files (sys w))). map_of (files (sys w)) p = Some File"
  shows "fst (clean pattern w) = Inr ()"
  unfolding clean_apply
  using assms by (intro forEach_unlink_succeeds) (simp_all add: matching_def distinct_map_filter)

lemma clean_all_apply:
  "clean_all d db w =
     (case clean (all_tickets_pattern d) w of
        (Inl e, w1) \<Rightarrow> (Inl e, w1)
      | (Inr u, w1) \<Rightarrow>
          (case clean (path_join d ''*.o.elf'') w1 of
             (Inl e, w2) \<Rightarrow> (Inl e, w2)
           | (Inr u, w2) \<Rightarrow> clean (path_join d db) w2))"
  by (simp add: clean_all_def then_p_apply returns_promise_def split: prod.splits sum.splits)


lemma artifacts_Nil:
  "artifacts d db fs = [] \<longleftrightarrow>
     matching (all_tickets_pattern d) fs = [] \<and> matching (path_join d ''*.o.elf'') fs = [] \<and>
     matching (path_join d db) fs = []"
  by (auto simp: artifacts_def matching_def filter_empty_conv)

lemma matching_subset_artifacts:
  "pattern \<in> {all_tickets_pattern d, path_join d ''*.o.elf'', path_join d db} \<Longrightarrow>
     set (matching pattern fs) \<subseteq> set (artifacts d db fs)"
  by (auto simp: artifacts_def matching_def)

lemma clean_all_nothing:
  "artifacts d db (files (sys w)) = [] \<Longrightarrow> clean_all d db w = (Inr (), w)"
  by (simp add: artifacts_Nil clean_all_apply clean_nothing)

lemma clean_all_result:
  assumes "clean_all d db w = (Inr u, w')"
  shows "w' = with_files w
           (filter (\<lambda>(p, k). p \<notin> set (artifacts d db (files (sys w)))) (files (sys w)))"
proof -
  from assms obtain u1 w1 u2 w2 where
    1: "clean (all_tickets_pattern d) w = (Inr u1, w1)" and
    2: "clean (path_join d ''*.o.elf'') w1 = (Inr u2, w2)" and
    3: "clean (path_join d db) w2 = (Inr u, w')"
    unfolding clean_all_apply by (auto split: prod.splits sum.splits)
  have "filter (\<lambda>(q, k). \<not> glob_match True (path_join d db) q)
          (filter (\<lambda>(q, k). \<not> glob_match True (path_join d ''*.o.elf'') q)
             (filter (\<lambda>(q, k). \<not> glob_match True (all_tickets_pattern d) q) (files (sys w)))) =
        filter (\<lambda>(p, k). p \<notin> set (artifacts d db (files (sys w)))) (files (sys w))"
    unfolding filter_filter
    by (rule filter_cong) (auto simp: artifacts_def image_iff)
  with clean_result [OF 1] clean_result [OF 2] clean_result [OF 3] show ?thesis by simp
qed

lemma artifacts_removed:
  "artifacts d db (filter (\<lambda>(p, k). p \<notin> set (artifacts d db fs)) fs) = []"
  by (auto simp: artifacts_def filter_empty_conv image_iff)


lemma clean_step:
  assumes dv: "distinct (map fst (files (sys v)))"
    and fv: "\<forall>p\<in>set (artifacts d db (files (sys v))). map_of (files (sys v)) p = Some File"
    and pat: "pattern \<in> {all_tickets_pattern d, path_join d ''*.o.elf'', path_join d db}"
  shows "\<exists>v'. clean pattern v = (Inr (), v') \<and> distinct (map fst (files (sys v'))) \<and>
      (\<forall>p\<in>set (artifacts d db (files (sys v'))). map_of (files (sys v')) p = Some File)"
proof -
  from matching_subset_artifacts [OF pat] fv
  have "\<forall>p\<in>set (matching pattern (files (sys v))). map_of (files (sys v)) p = Some File"
    by blast
  with dv have ok: "fst (clean pattern v) = Inr ()" by (rule clean_succeeds)
  then obtain v' where c: "clean pattern v = (Inr (), v')" by (cases "clean pattern v") auto
  let ?fs' = "filter (\<lambda>(q, k). \<not> glob_match True pattern q) (files (sys v))"
  from clean_result [OF c] have v': "files (sys v') = ?fs'" by simp
  have 1: "distinct (map fst ?fs')" using dv by (rule distinct_map_filter)
  have 2: "map_of ?fs' p = Some File" if "p \<in> set (artifacts d db ?fs')" for p
  proof -
    from that have in_a: "p \<in> set (artifacts d db (files (sys v)))"
      and nm: "\<not> glob_match True pattern p"
      unfolding artifacts_def by auto
    from nm have "map_of ?fs' p = map_of (files (sys v)) p"
      by (rule map_of_keep [where P = "\<lambda>q. \<not> glob_match True pattern q"])
    also from fv in_a have "\<dots> = Some File" by blast
    finally show ?thesis .
  qed
  from 1 2 show ?thesis unfolding c v' [symmetric] by blast
qed


lemma clean_all_succeeds:
  assumes d: "distinct (map fst (files (sys w)))"
    and f: "\<forall>p\<in>set (artifacts d db (files (sys w))). map_of (files (sys w)) p = Some File"
  shows "fst (clean_all d db w) = Inr ()"
proof -
  from clean_step [OF d f, of "all_tickets_pattern d"]
  obtain w1 where 1: "clean (all_tickets_pattern d) w = (Inr (), w1)"
    and d1: "distinct (map fst (files (sys w1)))"
    and f1: "\<forall>p\<in>set (artifacts d db (files (sys w1))). map_of (files (sys w1)) p = Some File"
    by auto
  from clean_step [OF d1 f1, of "path_join d ''*.o.elf''"]
  obtain w2 where 2: "clean (path_join d ''*.o.elf'') w1 = (Inr (), w2)"
    and d2: "distinct (map fst (files (sys w2)))"
    and f2: "\<forall>p\<in>set (artifacts d db (files (sys w2))). map_of (files (sys w2)) p = Some File"
    by auto
  from clean_step [OF d2 f2, of "path_join d db"]
  obtain w3 where 3: "clean (path_join d db) w2 = (Inr (), w3)"
    by auto
  from 1 2 3 show ?thesis by (simp add: clean_all_apply)
qed

text \<open>
  C8. The workspace cleaner removes the ticket files, the converted object files and the
  repository database. In a work directory with none of them it succeeds and changes
  nothing, also when run a second time. Whenever it succeeds, the file system that results
  is the one before without the paths its three patterns match, none of them is left, and
  running it again succeeds and changes nothing. It does succeed whenever what the
  patterns match are regular files (in a file system naming each path once).
\<close>

theorem clean_all_deletes_artifacts:
  "(artifacts d db (files (sys w)) = [] \<longrightarrow>
      clean_all d db w = (Inr (), w) \<and> clean_all d db (snd (clean_all d db w)) = (Inr (), w)) \<and>
   (clean_all d db w = (Inr u, w') \<longrightarrow>
      w' = with_files w
             (filter (\<lambda>(p, k). p \<notin> set (artifacts d db (files (sys w)))) (files (sys w))) \<and>
      artifacts d db (files (sys w')) = [] \<and>
      clean_all d db w' = (Inr (), w')) \<and>
   (distinct (map fst (files (sys w))) \<and>
    (\<forall>p\<in>set (artifacts d db (files (sys w))). map_of (files (sys w)) p = Some File) \<longrightarrow>
      fst (clean_all d db w) = Inr ())"
proof (intro conjI impI)
  assume "artifacts d db (files (sys w)) = []"
  then have "clean_all d db w = (Inr (), w)" by (rule clean_all_nothing)
  then show "clean_all d db w = (Inr (), w)"
    and "clean_all d db (snd (clean_all d db w)) = (Inr (), w)" by simp_all
next
  assume r: "clean_all d db w = (Inr u, w')"
  note w' = clean_all_result [OF r]
  then show "w' = with_files w
      (filter (\<lambda>(p, k). p \<notin> set (artifacts d db (files (sys w)))) (files (sys w)))" .
  from w' show a: "artifacts d db (files (sys w')) = []"
    by (simp add: artifacts_removed)
  then show "clean_all d db w' = (Inr (), w')" by (rule clean_all_nothing)
next
  assume "distinct (map fst (files (sys w))) \<and>
    (\<forall>p\<in>set (artifacts d db (files (sys w))). map_of (files (sys w)) p = Some File)"
  then show "fst (clean_all d db w) = Inr ()"
    using clean_all_succeeds by blast
qed

theorem clean_all_deletes_artifacts_witness:
  "artifacts ''/w'' repo_name (files (sys example_world)) = [] \<and>
   clean_all ''/w'' repo_name example_world = (Inr (), example_world) \<and>
   clean_all ''/w'' repo_name (snd (clean_all ''/w'' repo_name example_world)) =
     (Inr (), example_world) \<and>
   artifacts ''/w'' repo_name (files (sys stale_world)) =
     [''/w/t0.o'', ''/w/t0.o.elf'', ''/w/repository.db''] \<and>
   distinct (map fst (files (sys stale_world))) \<and>
   map (map_of (files (sys stale_world))) [''/w/t0.o'', ''/w/t0.o.elf'', ''/w/repository.db''] =
     [Some File, Some File, Some File] \<and>
   clean_all ''/w'' repo_name stale_world =
     (Inr (), with_files stale_world [(''/w'', Directory), (''/w/notes.txt'', File)]) \<and>
   artifacts ''/w'' repo_name [(''/w'', Directory), (''/w/notes.txt'', File)] = []"
proof -
  have a0: "artifacts ''/w'' repo_name (files (sys example_world)) = []"
    by code_simp
  have a1: "artifacts ''/w'' repo_name (files (sys stale_world)) =
     [''/w/t0.o'', ''/w/t0.o.elf'', ''/w/repository.db'']"
    by code_simp
  have d1: "distinct (map fst (files (sys stale_world)))"
    by code_simp
  have f1: "\<forall>p\<in>set (artifacts ''/w'' repo_name (files (sys stale_world))).
      map_of (files (sys stale_world)) p = Some File"
    unfolding a1 by (simp add: stale_world_def)
  have k: "filter (\<lambda>(p, k). p \<notin> set [''/w/t0.o'', ''/w/t0.o.elf'', ''/w/repository.db''])
             (files (sys stale_world)) = [(''/w'', Directory), (''/w/notes.txt'', File)]"
    by (simp add: stale_world_def)
  note t0 = clean_all_deletes_artifacts [of "''/w''" repo_name example_world]
  note t1 = clean_all_deletes_artifacts [of "''/w''" repo_name stale_world "()"]
  from t1 d1 f1 have "fst (clean_all ''/w'' repo_name stale_world) = Inr ()" by blast
  then obtain w' where r: "clean_all ''/w'' repo_name stale_world = (Inr (), w')"
    by (cases "clean_all ''/w'' repo_name stale_world") auto
  from t1 [of w'] r have "w' = with_files stale_world
      (filter (\<lambda>(p, k). p \<notin> set (artifacts ''/w'' repo_name (files (sys stale_world))))
         (files (sys stale_world)))"
    and a2: "artifacts ''/w'' repo_name (files (sys w')) = []"
    by blast+
  then have w': "w' = with_files stale_world [(''/w'', Directory), (''/w/notes.txt'', File)]"
    unfolding a1 k by simp
  from a2 have a3: "artifacts ''/w'' repo_name [(''/w'', Directory), (''/w/notes.txt'', File)] = []"
    unfolding w' by simp
  have f2: "map (map_of (files (sys stale_world)))
      [''/w/t0.o'', ''/w/t0.o.elf'', ''/w/repository.db''] = [Some File, Some File, Some File]"
    by (simp add: stale_world_def)
  from t0 a0 a1 d1 f2 r w' a3 show ?thesis by blast
qed

lemma forEach_unlink_frame:
  "forEach fs_unlinkSync ps w = (r, w') \<Longrightarrow> \<exists>fs. w' = with_files w fs"
proof (induction ps arbitrary: w)
  case Nil
  then show ?case by (auto intro: exI [of _ "files (sys w)"])
next
  case (Cons p ps)
  show ?case
  proof (cases "fs_unlinkSync p w")
    case (Pair r1 w1)
    show ?thesis
    proof (cases r1)
      case (Inl e)
      with Pair Cons.prems have "w' = w"
        by (auto simp: fs_unlinkSync_apply split: option.splits entry.splits)
      then show ?thesis by (auto intro: exI [of _ "files (sys w)"])
    next
      case (Inr u)
      with Pair have w1: "w1 = with_files w (filter (\<lambda>(q, k). q \<noteq> p) (files (sys w)))"
        by (auto simp: fs_unlinkSync_apply split: option.splits entry.splits)
      from Pair Inr Cons.prems have "forEach fs_unlinkSync ps w1 = (r, w')" by simp
      from Cons.IH [OF this] w1 show ?thesis by auto
    qed
  qed
qed

lemma clean_frame: "clean pattern w = (r, w') \<Longrightarrow> \<exists>fs. w' = with_files w fs"
  unfolding clean_apply by (rule forEach_unlink_frame)

lemma clean_all_frame:
  assumes "clean_all d db w = (r, w')"
  shows "\<exists>fs. w' = with_files w fs"
proof -
  obtain r1 w1 where 1: "clean (all_tickets_pattern d) w = (r1, w1)" by (metis prod.exhaust)
  obtain r2 w2 where 2: "clean (path_join d ''*.o.elf'') w1 = (r2, w2)" by (metis prod.exhaust)
  obtain r3 w3 where 3: "clean (path_join d db) w2 = (r3, w3)" by (metis prod.exhaust)
  from clean_frame [OF 1] clean_frame [OF 2] clean_frame [OF 3]
  obtain f1 f2 f3 where "w1 = with_files w f1" "w2 = with_files w f2" "w3 = with_files w f3"
    by auto
  with assms 1 2 3 show ?thesis
    unfolding clean_all_apply by (auto split: sum.splits)
qed

lemma single_run_apply:
  "single_run h bin work m e l w =
     (let r = run_runner h bin work repo_name verbose; out = path_join work ''a.out''
      in case clean_all work repo_name w of
           (Inl err, w1) \<Rightarrow> (Inl err, w1)
         | (Inr u, w1) \<Rightarrow>
             (case rld_gen r m e l (sys w1) of
                (Inl err, s2) \<Rightarrow>
                  (Inl err, w1\<lparr>sys := s2, trace := trace w1 @ [Spawned (RldGen m e l)]\<rparr>)
              | (Inr u2, s2) \<Rightarrow>
                  (let tickets = matching (all_tickets_pattern work) (files s2)
                   in case rld r tickets out s2 of
                        (Inl err, s3) \<Rightarrow>
                          (Inl err, w1\<lparr>sys := s3, trace := trace w1 @
                             [Spawned (RldGen m e l), Spawned (Rld tickets out)]\<rparr>)
                      | (Inr u3, s3) \<Rightarrow>
                          (Inr (now s3 - now s2), w1\<lparr>sys := s3, trace := trace w1 @
                             [Spawned (RldGen m e l), Spawned (Rld tickets out)]\<rparr>))))"
  by (simp add: single_run_def is_repo_linker_def then_p_apply catch_p_def spawn_def glob_def
      returns_def returns_promise_def throws_def resolve_def reject_def Let_def
      split: prod.splits sum.splits)

subsection \<open>A single run\<close>

lemma trace_with_files [simp]: "trace (with_files w fs) = trace w"
  by (simp add: with_files_def)

lemma exitCode_with_files [simp]: "exitCode (with_files w fs) = exitCode w"
  by (simp add: with_files_def)

lemma single_run_trace:
  "\<exists>cs. trace (snd (single_run h bin work m e l w)) = trace w @ map Spawned cs \<and>
        (cs = [] \<or> cs = [RldGen m e l] \<or> (\<exists>tickets. cs = [RldGen m e l, Rld tickets (path_join work ''a.out'')]))"
proof -
  obtain r1 w1 where c: "clean_all work repo_name w = (r1, w1)" by (metis prod.exhaust)
  from clean_all_frame [OF c] have t: "trace w1 = trace w" by auto
  show ?thesis
  proof (cases r1)
    case (Inl err)
    with c t have "trace (snd (single_run h bin work m e l w)) = trace w @ map Spawned []"
      by (simp add: single_run_apply)
    then show ?thesis by blast
  next
    case (Inr u)
    let ?r = "run_runner h bin work repo_name verbose"
    obtain r2 s2 where g: "rld_gen ?r m e l (sys w1) = (r2, s2)" by (metis prod.exhaust)
    show ?thesis
    proof (cases r2)
      case (Inl err)
      with c t Inr g have "trace (snd (single_run h bin work m e l w)) =
          trace w @ map Spawned [RldGen m e l]"
        by (simp add: single_run_apply)
      then show ?thesis by blast
    next
      case r2: (Inr u2)
      let ?tickets = "matching (all_tickets_pattern work) (files s2)"
      have "trace (snd (single_run h bin work m e l w)) =
          trace w @ map Spawned [RldGen m e l, Rld ?tickets (path_join work ''a.out'')]"
        using c t Inr g r2 by (simp add: single_run_apply Let_def split: prod.splits sum.splits)
      then show ?thesis by blast
    qed
  qed
qed

text \<open>
  C9. A single run always takes the branch of the repo linker: the flag is the constant
  true; the only tools a run calls are the generator and the repo linker, never the
  converter and never the traditional linker; and once the cleaning and the generation
  have succeeded, the repo linker is called with the ticket files themselves, as the
  ticket pattern finds them after the generation, and the output path in the work
  directory.
\<close>

theorem single_run_uses_repo_linker:
  "is_repo_linker \<and>
   (\<exists>cs. trace (snd (single_run h bin work m e l w)) = trace w @ map Spawned cs \<and>
         (\<forall>c\<in>set cs. case c of RldGen x y z \<Rightarrow> True | Rld inputs out \<Rightarrow> True | _ \<Rightarrow> False)) \<and>
   (\<forall>w1 s2. clean_all work repo_name w = (Inr (), w1) \<and>
            rld_gen (run_runner h bin work repo_name verbose) m e l (sys w1) = (Inr (), s2) \<longrightarrow>
        trace (snd (single_run h bin work m e l w)) =
          trace w @ [Spawned (RldGen m e l),
                     Spawned (Rld (matching (all_tickets_pattern work) (files s2))
                                  (path_join work ''a.out''))])"
proof (intro conjI allI impI)
  show "is_repo_linker" by (simp add: is_repo_linker_def)
  from single_run_trace [of h bin work m e l w]
  show "\<exists>cs. trace (snd (single_run h bin work m e l w)) = trace w @ map Spawned cs \<and>
         (\<forall>c\<in>set cs. case c of RldGen x y z \<Rightarrow> True | Rld inputs out \<Rightarrow> True | _ \<Rightarrow> False)"
    by (elim exE conjE disjE) (rule exI, rule conjI, assumption, simp)+
next
  fix w1 s2
  assume a: "clean_all work repo_name w = (Inr (), w1) \<and>
            rld_gen (run_runner h bin work repo_name verbose) m e l (sys w1) = (Inr (), s2)"
  with clean_all_frame [of work repo_name w "Inr ()" w1] have t: "trace w1 = trace w" by auto
  from a t show "trace (snd (single_run h bin work m e l w)) =
          trace w @ [Spawned (RldGen m e l),
                     Spawned (Rld (matching (all_tickets_pattern work) (files s2))
                                  (path_join work ''a.out''))]"
    by (simp add: single_run_apply Let_def split: prod.splits sum.splits)
qed

theorem single_run_uses_repo_linker_witness:
  "clean_all ''/w'' repo_name example_world = (Inr (), example_world) \<and>
   rld_gen (run_runner example_host ''/usr/bin'' ''/w'' repo_name verbose) 2 2000 2000
       (sys example_world) =
     (Inr (), \<lparr>files = [(''/w/t0.o'', File), (''/w/t1.o'', File), (''/w'', Directory)],
               now = 1020\<rparr>) \<and>
   trace (snd (single_run example_host ''/usr/bin'' ''/w'' 2 2000 2000 example_world)) =
     [Spawned (RldGen 2 2000 2000), Spawned (Rld [''/w/t0.o'', ''/w/t1.o''] ''/w/a.out'')]"
proof -
  have c: "clean_all ''/w'' repo_name example_world = (Inr (), example_world)"
    by code_simp
  have g: "rld_gen (run_runner example_host ''/usr/bin'' ''/w'' repo_name verbose) 2 2000 2000
       (sys example_world) =
     (Inr (), \<lparr>files = [(''/w/t0.o'', File), (''/w/t1.o'', File), (''/w'', Directory)],
               now = 1020\<rparr>)"
    by (simp add: example_host_def example_runner_def example_world_def)
  have m: "matching (all_tickets_pattern ''/w'')
      [(''/w/t0.o'', File), (''/w/t1.o'', File), (''/w'', Directory)] = [''/w/t0.o'', ''/w/t1.o'']"
    by code_simp
  have p: "path_join ''/w'' ''a.out'' = ''/w/a.out''"
    by (simp add: path_join_def)
  have t: "trace example_world = []"
    by (simp add: example_world_def)
  from single_run_uses_repo_linker [of example_host "''/usr/bin''" "''/w''" 2 2000 2000
      example_world] c g
  have "trace (snd (single_run example_host ''/usr/bin'' ''/w'' 2 2000 2000 example_world)) =
     trace example_world @ [Spawned (RldGen 2 2000 2000),
       Spawned (Rld (matching (all_tickets_pattern ''/w'')
          (files \<lparr>files = [(''/w/t0.o'', File), (''/w/t1.o'', File), (''/w'', Directory)],
               now = 1020\<rparr>)) (path_join ''/w'' ''a.out''))]"
    by blast
  with c g m p t show ?thesis by simp
qed

subsection \<open>The sweep and the output\<close>

lemma outputs_append [simp]: "outputs (xs @ ys) = outputs xs @ outputs ys"
  by (simp add: outputs_def)

lemma outputs_Spawned [simp]: "outputs (map Spawned cs) = []"
  by (induction cs) (simp_all add: outputs_def)

lemma outputs_report [simp]:
  "outputs (trace (snd (report a e w))) = outputs (trace w)"
  by (simp add: report_def outputs_def)

lemma exitCode_report [simp]: "exitCode (snd (report a e w)) = 1"
  by (simp add: report_def)

lemma serialize_tasks_length:
  "serialize_tasks tasks w = (Inr rs, w') \<Longrightarrow> length rs = length tasks"
proof (induction tasks arbitrary: rs w' rule: rev_induct)
  case Nil
  then show ?case by (simp add: serialize_tasks_Nil)
next
  case (snoc item tasks)
  then show ?case
    by (auto simp: serialize_tasks_snoc split: prod.splits sum.splits)
qed

lemma serialize_tasks_invariant:
  assumes step: "\<And>item v p v1 r v2. item \<in> set tasks \<Longrightarrow> item v = (p, v1) \<Longrightarrow> p v1 = (r, v2) \<Longrightarrow>
                  f v2 = f v"
  shows "f (snd (serialize_tasks tasks w)) = f w"
  using step
proof (induction tasks rule: rev_induct)
  case Nil
  then show ?case by (simp add: serialize_tasks_Nil)
next
  case (snoc item tasks)
  have ih: "f (snd (serialize_tasks tasks w)) = f w"
  proof (rule snoc.IH)
    fix it v p v1 r v2
    assume "it \<in> set tasks" "it v = (p, v1)" "p v1 = (r, v2)"
    then show "f v2 = f v" using snoc.prems [of it v p v1 r v2] by simp
  qed
  obtain r0 w0 where r0: "serialize_tasks tasks w = (r0, w0)" by (metis prod.exhaust)
  obtain p w1 where it: "item w0 = (p, w1)" by (metis prod.exhaust)
  obtain r w2 where pr: "p w1 = (r, w2)" by (metis prod.exhaust)
  from snoc.prems [of item w0 p w1 r w2] it pr have "f w2 = f w0" by simp
  with ih r0 it pr show ?case
    by (cases r0; cases r) (simp_all add: serialize_tasks_snoc)
qed

lemma run_task_outputs:
  assumes "run_task h a pt v = (p, v1)" and "p v1 = (r, v2)"
  shows "outputs (trace v2) = outputs (trace v)"
proof -
  obtain ne nl where pt: "pt = (ne, nl)" by (cases pt)
  let ?run = "single_run h (binDir a) (workDir a) (modules a) ne nl"
  from assms pt have "v2 = snd (?run v)"
    by (auto simp: run_task_def returns_promise_def then_p_apply returns_def resolve_def
        split: prod.splits sum.splits)
  with single_run_trace [of h "binDir a" "workDir a" "modules a" ne nl v]
  show ?thesis by (auto simp: outputs_def)
qed

lemma sweep_outputs:
  "outputs (trace (snd (serialize_tasks (map (run_task h a) points) w))) = outputs (trace w)"
  by (rule serialize_tasks_invariant [where f = "\<lambda>w. outputs (trace w)"])
     (auto dest: run_task_outputs)

lemma check_work_directory_frame: "snd (check_work_directory d f w) = w"
  unfolding check_work_directory_apply by (simp split: option.split entry.split)

lemma sweep_apply:
  "sweep h a w =
     (case grid_points (linkonce a) (external a) (increment a) of
        Inl e \<Rightarrow> (reject e, w)
      | Inr points \<Rightarrow> (serialize_tasks (map (run_task h a) points), w))"
  by (simp add: sweep_def throws_def returns_promise_def split: sum.split)

lemma results_text_Nil: "results_text [] = ''external linkonce time\<newline>''"
  by (simp add: results_text_def)

lemma write_results_outputs:
  assumes "write_results a results w = (q, w4)" and "q w4 = (r, w5)"
  shows "outputs (trace w5) = outputs (trace w) @
           [if output_arg a = ''-'' then StdoutWrite (results_text results)
            else WriteFile (output_arg a) (results_text results)]"
  using assms
  by (auto simp: write_results_def process_stdout_write_def fs_writeFile_def resolve_def
      outputs_def split: if_splits option.splits entry.splits)

lemma main_sweep_rejected:
  assumes "check_work_directory (workDir a) (force a) w = (Inr True, w)"
    and "grid_points (linkonce a) (external a) (increment a) = Inr points"
    and "serialize_tasks (map (run_task h a) points) w = (Inl e, w1)"
  shows "main h a w = snd (report a e w1)"
  using assms by (simp add: main_apply sweep_apply)

lemma main_outputs_changed:
  assumes "outputs (trace (main h a w)) \<noteq> outputs (trace w)"
  shows "\<exists>points results w1.
          check_work_directory (workDir a) (force a) w = (Inr True, w) \<and>
          grid_points (linkonce a) (external a) (increment a) = Inr points \<and>
          serialize_tasks (map (run_task h a) points) w = (Inr results, w1) \<and>
          length results = length points"
proof -
  obtain c w0 where c: "check_work_directory (workDir a) (force a) w = (c, w0)"
    by (metis prod.exhaust)
  with check_work_directory_frame [of "workDir a" "force a" w] have w0: "w0 = w" by simp
  show ?thesis
  proof (cases c)
    case (Inl e)
    with c w0 assms show ?thesis by (simp add: main_apply)
  next
    case (Inr b)
    with c w0 have b: "b = True"
      unfolding check_work_directory_apply by (auto split: option.splits entry.splits if_splits)
    show ?thesis
    proof (cases "grid_points (linkonce a) (external a) (increment a)")
      case (Inl e)
      with c w0 Inr assms show ?thesis by (simp add: main_apply sweep_apply reject_def)
    next
      case g: (Inr points)
      obtain r w1 where s: "serialize_tasks (map (run_task h a) points) w = (r, w1)"
        by (metis prod.exhaust)
      show ?thesis
      proof (cases r)
        case (Inl e)
        from sweep_outputs [of h a points w] s have "outputs (trace w1) = outputs (trace w)"
          by simp
        with c w0 Inr g s Inl assms show ?thesis by (simp add: main_apply sweep_apply)
      next
        case r: (Inr results)
        from serialize_tasks_length [OF s [unfolded r]] have "length results = length points"
          by simp
        with c w0 Inr b g s r show ?thesis by simp
      qed
    qed
  qed
qed

text \<open>
  C5. There is no partial output. If the check of the work directory passes and the sweep
  over the grid is rejected at some grid point, the program writes nothing, neither to the
  output file nor to standard output: it reports the error and sets the exit code to
  \<open>1\<close>. Conversely, whenever the program has written results, the check had passed and
  the whole sweep was fulfilled, with one result for each grid point.
\<close>

theorem main_no_partial_output:
  "(\<forall>points e w1.
       check_work_directory (workDir a) (force a) w = (Inr True, w) \<and>
       grid_points (linkonce a) (external a) (increment a) = Inr points \<and>
       serialize_tasks (map (run_task h a) points) w = (Inl e, w1) \<longrightarrow>
       main h a w =
         w1\<lparr>trace := trace w1 @ [if debug a then ConsoleTrace e else ConsoleError e],
            exitCode := 1\<rparr> \<and>
       outputs (trace (main h a w)) = outputs (trace w) \<and>
       exitCode (main h a w) = 1) \<and>
   (outputs (trace (main h a w)) \<noteq> outputs (trace w) \<longrightarrow>
       (\<exists>points results w1.
          check_work_directory (workDir a) (force a) w = (Inr True, w) \<and>
          grid_points (linkonce a) (external a) (increment a) = Inr points \<and>
          serialize_tasks (map (run_task h a) points) w = (Inr results, w1) \<and>
          length results = length points))"
proof (intro conjI allI impI)
  fix points e w1
  assume a: "check_work_directory (workDir a) (force a) w = (Inr True, w) \<and>
       grid_points (linkonce a) (external a) (increment a) = Inr points \<and>
       serialize_tasks (map (run_task h a) points) w = (Inl e, w1)"
  then have m: "main h a w = snd (report a e w1)"
    using main_sweep_rejected by blast
  from a sweep_outputs [of h a points w] have o: "outputs (trace w1) = outputs (trace w)"
    by simp
  from m show "main h a w =
         w1\<lparr>trace := trace w1 @ [if debug a then ConsoleTrace e else ConsoleError e],
            exitCode := 1\<rparr>"
    by (simp add: report_apply)
  from m o show "outputs (trace (main h a w)) = outputs (trace w)" by simp
  from m show "exitCode (main h a w) = 1" by simp
next
  assume "outputs (trace (main h a w)) \<noteq> outputs (trace w)"
  then show "\<exists>points results w1.
          check_work_directory (workDir a) (force a) w = (Inr True, w) \<and>
          grid_points (linkonce a) (external a) (increment a) = Inr points \<and>
          serialize_tasks (map (run_task h a) points) w = (Inr results, w1) \<and>
          length results = length points"
    by (rule main_outputs_changed)
qed

theorem main_no_partial_output_witness:
  "check_work_directory (workDir example_argv) (force example_argv) example_world =
     (Inr True, example_world) \<and>
   grid_points (linkonce example_argv) (external example_argv) (increment example_argv) =
     Inr [(2000, 2000)] \<and>
   serialize_tasks (map (run_task failing_host example_argv) [(2000, 2000)]) example_world =
     (Inl (ToolError ''rld''),
      \<lparr>sys = \<lparr>files = [(''/w/t0.o'', File), (''/w/t1.o'', File), (''/w'', Directory)],
              now = 1023\<rparr>,
       trace = [Spawned (RldGen 2 2000 2000),
                Spawned (Rld [''/w/t0.o'', ''/w/t1.o''] ''/w/a.out'')],
       exitCode = 0\<rparr>) \<and>
   main failing_host example_argv example_world =
     \<lparr>sys = \<lparr>files = [(''/w/t0.o'', File), (''/w/t1.o'', File), (''/w'', Directory)],
             now = 1023\<rparr>,
      trace = [Spawned (RldGen 2 2000 2000),
               Spawned (Rld [''/w/t0.o'', ''/w/t1.o''] ''/w/a.out''),
               ConsoleError (ToolError ''rld'')],
      exitCode = 1\<rparr> \<and>
   outputs (trace (main failing_host example_argv example_world)) = [] \<and>
   outputs (trace (main example_host example_argv example_world)) =
     [StdoutWrite ''external linkonce time\<newline>2000 2000 150\<newline>''] \<and>
   (\<exists>results w1.
      serialize_tasks (map (run_task example_host example_argv) [(2000, 2000)]) example_world =
        (Inr results, w1) \<and> length results = 1)"
proof -
  have c: "check_work_directory (workDir example_argv) (force example_argv) example_world =
     (Inr True, example_world)"
    by code_simp
  have g: "grid_points (linkonce example_argv) (external example_argv) (increment example_argv) =
     Inr [(2000, 2000)]"
    by code_simp
  let ?w1 = "\<lparr>sys = \<lparr>files = [(''/w/t0.o'', File), (''/w/t1.o'', File), (''/w'', Directory)],
              now = 1023\<rparr>,
       trace = [Spawned (RldGen 2 2000 2000),
                Spawned (Rld [''/w/t0.o'', ''/w/t1.o''] ''/w/a.out'')],
       exitCode = 0\<rparr>"
  have s: "serialize_tasks (map (run_task failing_host example_argv) [(2000, 2000)]) example_world =
     (Inl (ToolError ''rld''), ?w1)"
    by code_simp
  have d: "\<not> debug example_argv" "outputs (trace example_world) = []"
    by (simp_all add: example_argv_def example_world_def outputs_def)
  note t = main_no_partial_output [of example_argv example_world failing_host]
  from t c g s have "main failing_host example_argv example_world =
         ?w1\<lparr>trace := trace ?w1 @ [if debug example_argv then ConsoleTrace (ToolError ''rld'')
                                    else ConsoleError (ToolError ''rld'')],
            exitCode := 1\<rparr> \<and>
       outputs (trace (main failing_host example_argv example_world)) =
         outputs (trace example_world)"
    by blast
  with d have m: "main failing_host example_argv example_world =
     \<lparr>sys = \<lparr>files = [(''/w/t0.o'', File), (''/w/t1.o'', File), (''/w'', Directory)],
             now = 1023\<rparr>,
      trace = [Spawned (RldGen 2 2000 2000),
               Spawned (Rld [''/w/t0.o'', ''/w/t1.o''] ''/w/a.out''),
               ConsoleError (ToolError ''rld'')],
      exitCode = 1\<rparr>"
    and o: "outputs (trace (main failing_host example_argv example_world)) = []"
    by (simp_all add: outputs_def)
  have o2: "outputs (trace (main example_host example_argv example_world)) =
     [StdoutWrite ''external linkonce time\<newline>2000 2000 150\<newline>'']"
    by code_simp
  with d have "outputs (trace (main example_host example_argv example_world)) \<noteq>
      outputs (trace example_world)"
    by simp
  with main_no_partial_output [of example_argv example_world example_host] g
  have e: "\<exists>results w1.
      serialize_tasks (map (run_task example_host example_argv) [(2000, 2000)]) example_world =
        (Inr results, w1) \<and> length results = 1"
    by auto
  from c g s m o o2 e show ?thesis by blast
qed

text \<open>
  C10. With no task the serial task runner is fulfilled with the empty array, and when the
  grid is empty (and the check of the work directory passes) the program still writes its
  output, which is exactly the header line. When the output is \<open>-\<close>, all the program does
  is write the header line to standard output. Otherwise it calls \<open>fs.writeFile\<close> once,
  with the output path and the header line, and, when the file can be opened for writing,
  the world it leaves is the initial one with that call recorded and the file at the
  output path: the file is there and the exit code is as it was.
\<close>

theorem main_empty_grid:
  "serialize_tasks ([] :: (world, number list) task list) w = (Inr [], w) \<and>
   (check_work_directory (workDir a) (force a) w = (Inr True, w) \<and>
    grid_points (linkonce a) (external a) (increment a) = Inr [] \<longrightarrow>
      (output_arg a = ''-'' \<longrightarrow>
         main h a w = w\<lparr>trace := trace w @ [StdoutWrite ''external linkonce time\<newline>'']\<rparr>) \<and>
      (output_arg a \<noteq> ''-'' \<longrightarrow>
         outputs (trace (main h a w)) =
           outputs (trace w) @ [WriteFile (output_arg a) ''external linkonce time\<newline>''] \<and>
         (write_error (files (sys w)) (output_arg a) = None \<longrightarrow>
            main h a w =
              w\<lparr>sys := (sys w)\<lparr>files :=
                     (output_arg a, File) # remove_path (output_arg a) (files (sys w))\<rparr>,
                trace := trace w @ [WriteFile (output_arg a) ''external linkonce time\<newline>'']\<rparr> \<and>
            map_of (files (sys (main h a w))) (output_arg a) = Some File \<and>
            exitCode (main h a w) = exitCode w)))"
proof (intro conjI impI)
  show "serialize_tasks ([] :: (world, number list) task list) w = (Inr [], w)"
    by (rule serialize_tasks_Nil)
next
  assume a: "check_work_directory (workDir a) (force a) w = (Inr True, w) \<and>
    grid_points (linkonce a) (external a) (increment a) = Inr []"
    and o: "output_arg a = ''-''"
  then show "main h a w = w\<lparr>trace := trace w @ [StdoutWrite ''external linkonce time\<newline>'']\<rparr>"
    by (simp add: main_apply sweep_apply serialize_tasks_Nil write_results_def
        process_stdout_write_def resolve_def results_text_Nil)
next
  assume a: "check_work_directory (workDir a) (force a) w = (Inr True, w) \<and>
    grid_points (linkonce a) (external a) (increment a) = Inr []"
    and o: "output_arg a \<noteq> ''-''"
  obtain q w4 where q: "write_results a [] w = (q, w4)" by (metis prod.exhaust)
  obtain r w5 where r: "q w4 = (r, w5)" by (metis prod.exhaust)
  from write_results_outputs [OF q r] o
  have "outputs (trace w5) =
      outputs (trace w) @ [WriteFile (output_arg a) ''external linkonce time\<newline>'']"
    by (simp add: results_text_Nil)
  with a q r show "outputs (trace (main h a w)) =
      outputs (trace w) @ [WriteFile (output_arg a) ''external linkonce time\<newline>'']"
    by (cases r) (simp_all add: main_apply sweep_apply serialize_tasks_Nil)
next
  assume a: "check_work_directory (workDir a) (force a) w = (Inr True, w) \<and>
    grid_points (linkonce a) (external a) (increment a) = Inr []"
    and o: "output_arg a \<noteq> ''-''"
    and e: "write_error (files (sys w)) (output_arg a) = None"
  from a o e show m: "main h a w =
      w\<lparr>sys := (sys w)\<lparr>files :=
             (output_arg a, File) # remove_path (output_arg a) (files (sys w))\<rparr>,
        trace := trace w @ [WriteFile (output_arg a) ''external linkonce time\<newline>'']\<rparr>"
    by (simp add: main_apply sweep_apply serialize_tasks_Nil write_results_def
        fs_writeFile_def results_text_Nil)
  from m show "map_of (files (sys (main h a w))) (output_arg a) = Some File" by simp
  from m show "exitCode (main h a w) = exitCode w" by simp
qed

theorem main_empty_grid_witness:
  "check_work_directory (workDir (example_argv\<lparr>increment := 4000\<rparr>))
       (force (example_argv\<lparr>increment := 4000\<rparr>)) example_world = (Inr True, example_world) \<and>
   grid_points 2000 2000 4000 = Inr [] \<and>
   main example_host (example_argv\<lparr>increment := 4000\<rparr>) example_world =
     example_world\<lparr>trace := [StdoutWrite ''external linkonce time\<newline>'']\<rparr> \<and>
   write_error (files (sys example_world)) ''/w/out.txt'' = None \<and>
   main example_host (example_argv\<lparr>increment := 4000, output_arg := ''/w/out.txt''\<rparr>)
       example_world =
     \<lparr>sys = \<lparr>files = [(''/w/out.txt'', File), (''/w'', Directory)], now = 1000\<rparr>,
      trace = [WriteFile ''/w/out.txt'' ''external linkonce time\<newline>''],
      exitCode = 0\<rparr> \<and>
   outputs (trace (main example_host
       (example_argv\<lparr>increment := 4000, output_arg := ''/w/out.txt''\<rparr>) example_world)) =
     [WriteFile ''/w/out.txt'' ''external linkonce time\<newline>'']"
proof -
  let ?a = "example_argv\<lparr>increment := 4000\<rparr>"
  let ?b = "example_argv\<lparr>increment := 4000, output_arg := ''/w/out.txt''\<rparr>"
  have c: "check_work_directory (workDir ?a) (force ?a) example_world = (Inr True, example_world)"
    by code_simp
  have g: "grid_points 2000 2000 4000 = Inr []"
    by code_simp
  have e: "write_error (files (sys example_world)) ''/w/out.txt'' = None"
    by code_simp
  have f: "linkonce ?a = 2000" "external ?a = 2000" "increment ?a = 4000" "output_arg ?a = ''-''"
    "workDir ?b = workDir ?a" "force ?b = force ?a"
    "linkonce ?b = 2000" "external ?b = 2000" "increment ?b = 4000"
    "output_arg ?b = ''/w/out.txt''"
    "trace example_world = []" "outputs [] = []"
    by (simp_all add: example_argv_def example_world_def outputs_def)
  have k: "example_world\<lparr>sys := (sys example_world)\<lparr>files :=
             (''/w/out.txt'', File) # remove_path ''/w/out.txt'' (files (sys example_world))\<rparr>,
        trace := [WriteFile ''/w/out.txt'' ''external linkonce time\<newline>'']\<rparr> =
     \<lparr>sys = \<lparr>files = [(''/w/out.txt'', File), (''/w'', Directory)], now = 1000\<rparr>,
      trace = [WriteFile ''/w/out.txt'' ''external linkonce time\<newline>''],
      exitCode = 0\<rparr>"
    by (simp add: example_world_def remove_path_def)
  from main_empty_grid [of example_world ?a example_host] c g f
  have 1: "main example_host ?a example_world =
     example_world\<lparr>trace := [StdoutWrite ''external linkonce time\<newline>'']\<rparr>"
    by simp
  from main_empty_grid [of example_world ?b example_host] c g e f
  have 2: "main example_host ?b example_world =
      example_world\<lparr>sys := (sys example_world)\<lparr>files :=
             (''/w/out.txt'', File) # remove_path ''/w/out.txt'' (files (sys example_world))\<rparr>,
        trace := [WriteFile ''/w/out.txt'' ''external linkonce time\<newline>'']\<rparr>"
    by simp
  from main_empty_grid [of example_world ?b example_host] c g f
  have 3: "outputs (trace (main example_host ?b example_world)) =
     [WriteFile ''/w/out.txt'' ''external linkonce time\<newline>'']"
    by simp
  from c g e 1 2 [unfolded k] 3 show ?thesis by blast
qed

end
